theory Spec2Isabelle
  imports Complex_Main "HOL-Library.Signed_Division" "HOL-Library.Multiset"
begin

section \<open>Shared data model\<close>

text \<open>
  The repository holds two independent analysers of one user's vault position:
  \<^item> \<open>EnhancedMorphoAPYCalculator\<close> (\<open>src/script/overview.ts\<close>), called the calculator
    below, which works on interactions that carry their own price sample;
  \<^item> \<open>VaultPeriodTracker\<close> (\<open>src/unnamed/part_000\<close>), called the tracker below, which
    asks the chain for a price at every period boundary and fetches rewards.

  A \<open>bigint\<close> is an \<open>int\<close>. Division of \<open>bigint\<close>s truncates towards zero, which is
  \<open>sdiv\<close>, and throws a \<open>RangeError\<close> on a zero divisor. A \<open>throw\<close> or rejected
  promise inside a modelled function is an \<open>Inl\<close> of its result. The two
  \<open>RangeError\<close>s of the source, the one of a \<open>bigint\<close> division by zero and the one of
  \<open>toISOString\<close> on an invalid date, are kept apart.

  The source keeps a price per share as a double and only ever feeds it to \<open>bigint\<close>
  arithmetic as \<open>BigInt(Math.floor(price * 1e18))\<close>. The model carries that integer: a
  price is the fixed-point value scaled by \<open>10^18\<close>, so the default price \<open>1.0\<close> is
  \<open>10^18\<close>. The calculator's \<open>apy\<close>, the \<open>Number(formatEther(...))\<close> copies of the
  exact values and the ISO date strings are not part of the model. A percentage of the
  calculator is kept as the term that the source evaluates (\<open>Hundredths\<close> below), and
  the yield figures of the tracker are computed with operations on doubles that are left
  open, so neither is given an exact arithmetic. Only \<open>durationDays\<close>, which the source
  does nothing with but compare it with a literal, is an exact quotient; the comparison
  is the same on both sides (see below).
\<close>

datatype error =
    DivisionByZero     \<comment> \<open>\<open>RangeError\<close>: \<open>bigint\<close> division by zero\<close>
  | InvalidTimeValue   \<comment> \<open>\<open>RangeError\<close>: \<open>toISOString\<close> on an invalid date\<close>
  | SyntaxError        \<comment> \<open>\<open>BigInt(s)\<close> on a string that is not an integer\<close>
  | ClientError        \<comment> \<open>a contract read or \<open>client.getBlock\<close> call that rejects\<close>

datatype interaction_type = deposit | withdraw

record UserInteraction =
  blockNumber :: int
  timestamp :: int
  type :: interaction_type
  assets :: int
  shares :: int

text \<open>The calculator's interactions are the tracker's, with the price sample of their block.\<close>

record PricedUserInteraction = UserInteraction +
  pricePerShare :: int

text \<open>The four boundary fields that both period interfaces declare.\<close>

record PeriodSpan =
  startBlock :: int
  endBlock :: int
  startTimestamp :: int
  endTimestamp :: int

definition SCALE :: int where
  "SCALE = 10 ^ 18"

definition bigint_div :: "int \<Rightarrow> int \<Rightarrow> error + int" where
  "bigint_div a b = (if b = 0 then Inl DivisionByZero else Inr (a sdiv b))"

text \<open>
  \<open>new Date(Number(ts * 1000n)).toISOString()\<close> throws when the date is invalid, which
  is when the milliseconds lie outside \<open>-8.64e15\<close> to \<open>8.64e15\<close>; that bound is below \<open>2^53\<close>, so
  the conversion of the \<open>bigint\<close> does not change the test. The string is not kept.
\<close>

definition toISOString :: "int \<Rightarrow> error + unit" where
  "toISOString ts =
     (if \<bar>ts * 1000\<bar> \<le> 8640000000000000 then Inr () else Inl InvalidTimeValue)"

text \<open>
  \<open>Array.prototype.sort\<close> with a comparator: the sort is stable, so with a consistent
  comparator its result is the one of a stable insertion sort. An element goes in front
  of the first later element that the comparator does not put before it.
\<close>

fun js_insert :: "('a \<Rightarrow> 'a \<Rightarrow> int) \<Rightarrow> 'a \<Rightarrow> 'a list \<Rightarrow> 'a list" where
  "js_insert cmp x [] = [x]"
| "js_insert cmp x (y # ys) = (if cmp x y \<le> 0 then x # y # ys else y # js_insert cmp x ys)"

definition js_sort :: "('a \<Rightarrow> 'a \<Rightarrow> int) \<Rightarrow> 'a list \<Rightarrow> 'a list" where
  "js_sort cmp xs = foldr (js_insert cmp) xs []"


section \<open>The calculator (\<open>overview.ts\<close>)\<close>

text \<open>
  The percentages of the calculator are doubles of the form \<open>Number(q) / 100\<close> for a
  \<open>bigint\<close> \<open>q\<close>. \<open>Hundredths q\<close> is that double: the conversion and the division are
  kept as a term and not carried out, so nothing is said here about their rounding. The
  literal \<open>0\<close> of the source is \<open>Hundredths 0\<close>, the same double.
\<close>

datatype percent = Hundredths int

record EnhancedInterestPeriod = PeriodSpan +
  periodIndex :: nat
  startPrice :: int
  endPrice :: int
  durationDays :: rat
  interestPercent :: percent
  sharesHeldBigint :: int
  startValueBigint :: int
  endValueBigint :: int
  interestAccruedBigint :: int
  cumulativeInterest :: int
  cumulativeInterestPercent :: percent

text \<open>
  \<open>durationDays = timeDiffSeconds / 86400\<close> is a double in the source and a rational
  here. The source only compares it with the literal \<open>0.04\<close>. For an integer number of
  seconds the two agree: \<open>3456 / 86400\<close> rounds to the double that the literal
  \<open>0.04\<close> denotes, and every other integer quotient is further from \<open>0.04\<close> than the
  rounding error, so \<open>durationDays < 0.04\<close> is \<open>timeDiffSeconds < 3456\<close> on both sides.
\<close>

text \<open>
  The expression \<open>d > 0n ? Number((n * 10000n) / d) / 100 : 0\<close>, which the source writes
  out for \<open>interestPercent\<close>, \<open>cumulativeInterestPercent\<close> and \<open>totalInterestPercent\<close>.
\<close>

definition percentOf :: "int \<Rightarrow> int \<Rightarrow> error + percent" where
  "percentOf numerator denominator =
     (if denominator > 0
      then (case bigint_div (numerator * 10000) denominator of
              Inl e \<Rightarrow> Inl e
            | Inr q \<Rightarrow> Inr (Hundredths q))
      else Inr (Hundredths 0))"

definition calculateTotalDepositedUpToInteraction ::
    "PricedUserInteraction list \<Rightarrow> nat \<Rightarrow> int" where
  "calculateTotalDepositedUpToInteraction ints interactionIndex =
     foldl (\<lambda>totalDeposited interaction.
              if type interaction = deposit then totalDeposited + assets interaction
              else totalDeposited)
           0 (take (Suc interactionIndex) ints)"

text \<open>
  \<open>fetchUserInteractions\<close> of the calculator, from the two event logs on. An event is
  a block number with the \<open>assets\<close> and \<open>shares\<close> arguments (\<open>0n\<close> when absent). The
  deposits are collected first, then the withdrawals; an event whose block has no
  timestamp or no price in \<open>blockCache\<close> is skipped.
\<close>

record log_event =
  eventBlock :: int
  eventAssets :: int
  eventShares :: int

record block_data =
  cachedTimestamp :: "int option"
  cachedPricePerShare :: "int option"

definition attach_block_data ::
    "(int \<rightharpoonup> block_data) \<Rightarrow> interaction_type \<times> log_event \<Rightarrow>
     PricedUserInteraction option" where
  "attach_block_data blockCache te =
     (case blockCache (eventBlock (snd te)) of
        None \<Rightarrow> None
      | Some blockData \<Rightarrow>
         (case cachedTimestamp blockData of
            None \<Rightarrow> None
          | Some ts \<Rightarrow>
             (case cachedPricePerShare blockData of
                None \<Rightarrow> None
              | Some p \<Rightarrow>
                  Some \<lparr>blockNumber = eventBlock (snd te), timestamp = ts, type = fst te,
                        assets = eventAssets (snd te), shares = eventShares (snd te),
                        pricePerShare = p\<rparr>)))"

definition calc_fetchUserInteractions ::
    "(int \<rightharpoonup> block_data) \<Rightarrow> log_event list \<Rightarrow> log_event list \<Rightarrow>
     PricedUserInteraction list" where
  "calc_fetchUserInteractions blockCache depositEvents withdrawEvents =
     List.map_filter (attach_block_data blockCache)
       (map (Pair deposit) depositEvents @ map (Pair withdraw) withdrawEvents)"

text \<open>The sort of \<open>calculateAverageAPY\<close>: by block number only.\<close>

definition compareByBlock :: "PricedUserInteraction \<Rightarrow> PricedUserInteraction \<Rightarrow> int" where
  "compareByBlock a b = blockNumber a - blockNumber b"

definition sortByBlock :: "PricedUserInteraction list \<Rightarrow> PricedUserInteraction list" where
  "sortByBlock ints = js_sort compareByBlock ints"

record loop_state =
  currentShares :: int
  runningInterest :: int
  enhancedPeriods :: "EnhancedInterestPeriod list"

text \<open>
  One iteration of the \<open>for\<close> loop of \<open>calculatePreciseInterestBetweenInteractions\<close>, at
  index \<open>i\<close>. The field \<open>runningInterest\<close> is the loop's local \<open>cumulativeInterest\<close>.
\<close>

definition preciseInterest_body ::
    "PricedUserInteraction list \<Rightarrow> nat \<Rightarrow> loop_state \<Rightarrow> error + loop_state" where
  "preciseInterest_body ints i st =
    (let currentInteraction = ints ! i;
         shares' = (if type currentInteraction = deposit
                    then currentShares st + shares currentInteraction
                    else currentShares st - shares currentInteraction);
         st1 = st\<lparr>currentShares := shares'\<rparr>
     in if i = 0 \<or> shares' = 0 then Inr st1
        else
          let prevInteraction = ints ! (i - 1);
              timeDiffSeconds = timestamp currentInteraction - timestamp prevInteraction;
              days = (of_int timeDiffSeconds / 86400 :: rat)
          in if days < 4 / 100 then Inr st1
             else
               let startPriceBigint = pricePerShare prevInteraction;
                   endPriceBigint = pricePerShare currentInteraction;
                   startValue = (shares' * startPriceBigint) sdiv SCALE;
                   endValue = (shares' * endPriceBigint) sdiv SCALE;
                   interestAccrued =
                     (if endValue > startValue then endValue - startValue else 0);
                   cumulative = runningInterest st + interestAccrued;
                   totalDepositedSoFar = calculateTotalDepositedUpToInteraction ints i
               in case percentOf interestAccrued startValue of
                    Inl e \<Rightarrow> Inl e
                  | Inr percent \<Rightarrow>
                     (case percentOf cumulative totalDepositedSoFar of
                        Inl e \<Rightarrow> Inl e
                      | Inr cumulativePercent \<Rightarrow>
                         (case toISOString (timestamp prevInteraction) of
                            Inl e \<Rightarrow> Inl e
                          | Inr startDate \<Rightarrow>
                             (case toISOString (timestamp currentInteraction) of
                                Inl e \<Rightarrow> Inl e
                              | Inr endDate \<Rightarrow>
                          Inr (st1\<lparr>runningInterest := cumulative,
                                   enhancedPeriods := enhancedPeriods st @
                                     [\<lparr>startBlock = blockNumber prevInteraction,
                                       endBlock = blockNumber currentInteraction,
                                       startTimestamp = timestamp prevInteraction,
                                       endTimestamp = timestamp currentInteraction,
                                       periodIndex = length (enhancedPeriods st) + 1,
                                       startPrice = pricePerShare prevInteraction,
                                       endPrice = pricePerShare currentInteraction,
                                       durationDays = days,
                                       interestPercent = percent,
                                       sharesHeldBigint = shares',
                                       startValueBigint = startValue,
                                       endValueBigint = endValue,
                                       interestAccruedBigint = interestAccrued,
                                       cumulativeInterest = cumulative,
                                       cumulativeInterestPercent = cumulativePercent\<rparr>]\<rparr>)))))"

function preciseInterest_loop ::
    "PricedUserInteraction list \<Rightarrow> nat \<Rightarrow> loop_state \<Rightarrow> error + loop_state" where
  "preciseInterest_loop ints i st =
     (if i < length ints
      then (case preciseInterest_body ints i st of
              Inl e \<Rightarrow> Inl e
            | Inr st' \<Rightarrow> preciseInterest_loop ints (i + 1) st')
      else Inr st)"
  by pat_completeness auto
termination
  by (relation "measure (\<lambda>(ints, i, st). length ints - i)") auto

text \<open>
  The fallback \<open>getPricePerShareAtBlock(blockNumber, retryCount = 3)\<close> of the calculator.
  \<open>cache\<close> is the price part of \<open>blockCache\<close>; \<open>readPrice b n\<close> is the outcome of the two
  contract reads at block \<open>b\<close> made with \<open>n\<close> retries left, \<open>None\<close> when they throw.
\<close>

fun calc_getPricePerShareAtBlock ::
    "(int \<Rightarrow> int option) \<Rightarrow> (int \<Rightarrow> nat \<Rightarrow> int option) \<Rightarrow> int \<Rightarrow> nat \<Rightarrow> int" where
  "calc_getPricePerShareAtBlock cache readPrice b retryCount =
     (case cache b of
        Some p \<Rightarrow> p
      | None \<Rightarrow>
         (case readPrice b retryCount of
            Some p \<Rightarrow> p
          | None \<Rightarrow>
             (case retryCount of
                Suc n \<Rightarrow> calc_getPricePerShareAtBlock cache readPrice b n
              | 0 \<Rightarrow> 10 ^ 18)))"

record calculator =
  periodsOut :: "EnhancedInterestPeriod list"
  totalInterestAccruedBigint :: int

text \<open>
  \<open>calculateInterestToLatestBlock\<close>. \<open>latest\<close> is the answer of
  \<open>client.getBlock({ blockTag: "latest" })\<close>, number and timestamp, \<open>None\<close> when it
  rejects. \<open>periodsOut\<close> is \<open>this.enhancedPeriods\<close>.
\<close>

definition calculateInterestToLatestBlock ::
    "(int \<times> int) option \<Rightarrow> (int \<Rightarrow> int option) \<Rightarrow> (int \<Rightarrow> nat \<Rightarrow> int option) \<Rightarrow>
     PricedUserInteraction list \<Rightarrow> int \<Rightarrow> int \<Rightarrow> calculator \<Rightarrow> error + calculator" where
  "calculateInterestToLatestBlock latest cache readPrice ints shares' cumulative c =
    (if shares' = 0 \<or> length ints = 0 then Inr c
     else
       let lastInteraction = ints ! (length ints - 1)
       in case latest of
            None \<Rightarrow> Inl ClientError
          | Some (latestNumber, latestTimestamp) \<Rightarrow>
             let latestPrice =
                   (case cache latestNumber of
                      Some p \<Rightarrow> p
                    | None \<Rightarrow> calc_getPricePerShareAtBlock cache readPrice latestNumber 3);
                 timeDiffSeconds = latestTimestamp - timestamp lastInteraction;
                 days = (of_int timeDiffSeconds / 86400 :: rat)
             in if days > 4 / 100
                then
                  let startPriceBigint = pricePerShare lastInteraction;
                      endPriceBigint = latestPrice;
                      startValue = (shares' * startPriceBigint) sdiv SCALE;
                      endValue = (shares' * endPriceBigint) sdiv SCALE;
                      interestAccrued =
                        (if endValue > startValue then endValue - startValue else 0);
                      finalCumulativeInterest = cumulative + interestAccrued;
                      totalDepositedSoFar =
                        calculateTotalDepositedUpToInteraction ints (length ints - 1)
                  in case percentOf interestAccrued startValue of
                       Inl e \<Rightarrow> Inl e
                     | Inr percent \<Rightarrow>
                        (case percentOf finalCumulativeInterest totalDepositedSoFar of
                           Inl e \<Rightarrow> Inl e
                         | Inr cumulativePercent \<Rightarrow>
                            (case toISOString (timestamp lastInteraction) of
                               Inl e \<Rightarrow> Inl e
                             | Inr startDate \<Rightarrow>
                                (case toISOString latestTimestamp of
                                   Inl e \<Rightarrow> Inl e
                                 | Inr endDate \<Rightarrow>
                             Inr \<lparr>periodsOut = periodsOut c @
                                    [\<lparr>startBlock = blockNumber lastInteraction,
                                      endBlock = latestNumber,
                                      startTimestamp = timestamp lastInteraction,
                                      endTimestamp = latestTimestamp,
                                      periodIndex = length (periodsOut c) + 1,
                                      startPrice = pricePerShare lastInteraction,
                                      endPrice = latestPrice,
                                      durationDays = days,
                                      interestPercent = percent,
                                      sharesHeldBigint = shares',
                                      startValueBigint = startValue,
                                      endValueBigint = endValue,
                                      interestAccruedBigint = interestAccrued,
                                      cumulativeInterest = finalCumulativeInterest,
                                      cumulativeInterestPercent = cumulativePercent\<rparr>],
                                  totalInterestAccruedBigint = finalCumulativeInterest\<rparr>)))
                else Inr c)"

text \<open>
  \<open>calculatePreciseInterestBetweenInteractions\<close> on a fresh calculator: the loop from
  \<open>currentShares = 0n\<close>, \<open>cumulativeInterest = 0n\<close> and no period, then the open period.
\<close>

definition calculatePreciseInterestBetweenInteractions ::
    "(int \<times> int) option \<Rightarrow> (int \<Rightarrow> int option) \<Rightarrow> (int \<Rightarrow> nat \<Rightarrow> int option) \<Rightarrow>
     PricedUserInteraction list \<Rightarrow> error + calculator" where
  "calculatePreciseInterestBetweenInteractions latest cache readPrice ints =
     (case preciseInterest_loop ints 0
             \<lparr>currentShares = 0, runningInterest = 0, enhancedPeriods = []\<rparr> of
        Inl e \<Rightarrow> Inl e
      | Inr st \<Rightarrow>
          calculateInterestToLatestBlock latest cache readPrice ints
            (currentShares st) (runningInterest st)
            \<lparr>periodsOut = enhancedPeriods st, totalInterestAccruedBigint = 0\<rparr>)"

text \<open>
  \<open>calculateAverageAPY\<close> up to the exact figures: fetch, return at once on an empty
  ledger, sort by block number, then compute the periods.
\<close>

definition calculateAverageAPY ::
    "(int \<times> int) option \<Rightarrow> (int \<Rightarrow> nat \<Rightarrow> int option) \<Rightarrow> (int \<rightharpoonup> block_data) \<Rightarrow>
     log_event list \<Rightarrow> log_event list \<Rightarrow> error + calculator" where
  "calculateAverageAPY latest readPrice blockCache depositEvents withdrawEvents =
     (let ints = calc_fetchUserInteractions blockCache depositEvents withdrawEvents
      in if length ints = 0 then Inr \<lparr>periodsOut = [], totalInterestAccruedBigint = 0\<rparr>
         else calculatePreciseInterestBetweenInteractions latest
                (\<lambda>b. Option.bind (blockCache b) cachedPricePerShare) readPrice
                (sortByBlock ints))"

text \<open>
  What \<open>fetchUserInteractions\<close> asks of the chain before it builds the ledger:
  \<^item> \<open>blockTimestamp b\<close>: the timestamp of \<open>client.getBlock({ blockNumber: b })\<close>,
    \<open>None\<close> when the call rejects;
  \<^item> \<open>totalAssets b\<close>, \<open>totalSupply b\<close>: the two contract reads at block \<open>b\<close>, \<open>None\<close>
    when the read rejects;
  \<^item> \<open>quotientScaled a s\<close>: the double
    \<open>Number(formatEther(a)) / Number(formatEther(s))\<close> as the integer
    \<open>BigInt(Math.floor(price * 1e18))\<close> that the calculator later forms from it. The
    double arithmetic is left open.
\<close>

record chain =
  blockTimestamp :: "int \<Rightarrow> int option"
  totalAssets :: "int \<Rightarrow> int option"
  totalSupply :: "int \<Rightarrow> int option"
  quotientScaled :: "int \<Rightarrow> int \<Rightarrow> int"

text \<open>\<open>{ ...this.blockCache[key] }\<close>: the entry of a block, without fields when absent.\<close>

definition cacheEntry :: "(int \<rightharpoonup> block_data) \<Rightarrow> int \<Rightarrow> block_data" where
  "cacheEntry blockCache b =
     (case blockCache b of
        None \<Rightarrow> \<lparr>cachedTimestamp = None, cachedPricePerShare = None\<rparr>
      | Some blockData \<Rightarrow> blockData)"

text \<open>
  \<open>fetchBlockTimestamps\<close> and \<open>fetchPricePerShare\<close>. Both await their calls with
  \<open>Promise.all\<close> and catch nothing, so one rejected call rejects the function; the
  batches of \<open>100\<close> and \<open>50\<close> blocks only group the calls. A price is stored only
  \<open>if (data.totalAssets && data.totalSupply)\<close>, that is when neither read is \<open>0n\<close>;
  \<open>Number(formatEther(s)) > 0\<close> holds exactly when \<open>s > 0\<close>.
\<close>

fun fetchBlockTimestamps ::
    "chain \<Rightarrow> int list \<Rightarrow> (int \<rightharpoonup> block_data) \<Rightarrow> error + (int \<rightharpoonup> block_data)" where
  "fetchBlockTimestamps ch [] blockCache = Inr blockCache"
| "fetchBlockTimestamps ch (b # rest) blockCache =
     (case blockTimestamp ch b of
        None \<Rightarrow> Inl ClientError
      | Some ts \<Rightarrow>
          fetchBlockTimestamps ch rest
            (blockCache(b \<mapsto> (cacheEntry blockCache b)\<lparr>cachedTimestamp := Some ts\<rparr>)))"

fun fetchPricePerShare ::
    "chain \<Rightarrow> int list \<Rightarrow> (int \<rightharpoonup> block_data) \<Rightarrow> error + (int \<rightharpoonup> block_data)" where
  "fetchPricePerShare ch [] blockCache = Inr blockCache"
| "fetchPricePerShare ch (b # rest) blockCache =
     (case totalAssets ch b of
        None \<Rightarrow> Inl ClientError
      | Some assetsRead \<Rightarrow>
         (case totalSupply ch b of
            None \<Rightarrow> Inl ClientError
          | Some supplyRead \<Rightarrow>
              fetchPricePerShare ch rest
                (if assetsRead \<noteq> 0 \<and> supplyRead \<noteq> 0
                 then blockCache(b \<mapsto> (cacheEntry blockCache b)
                        \<lparr>cachedPricePerShare :=
                           Some (if 0 < supplyRead then quotientScaled ch assetsRead supplyRead
                                 else 10 ^ 18)\<rparr>)
                 else blockCache)))"

text \<open>
  The \<open>Set\<close> of block numbers that \<open>fetchUserInteractions\<close> collects from the events,
  in insertion order, and \<open>this.blockCache\<close> as the two fetches leave it, starting from
  the empty cache of a new calculator.
\<close>

definition blockNumbersOf :: "log_event list \<Rightarrow> int list" where
  "blockNumbersOf events =
     foldl (\<lambda>seen b. if b \<in> set seen then seen else seen @ [b]) [] (map eventBlock events)"

definition fetchBlockData ::
    "chain \<Rightarrow> log_event list \<Rightarrow> log_event list \<Rightarrow> error + (int \<rightharpoonup> block_data)" where
  "fetchBlockData ch depositEvents withdrawEvents =
     (let blockNumbers = blockNumbersOf (depositEvents @ withdrawEvents)
      in case fetchBlockTimestamps ch blockNumbers Map.empty of
           Inl e \<Rightarrow> Inl e
         | Inr blockCache \<Rightarrow> fetchPricePerShare ch blockNumbers blockCache)"

text \<open>\<open>calculateAverageAPY\<close> with the fetches of \<open>fetchUserInteractions\<close> in front.\<close>

definition calculateAverageAPY_fetching ::
    "chain \<Rightarrow> (int \<times> int) option \<Rightarrow> (int \<Rightarrow> nat \<Rightarrow> int option) \<Rightarrow>
     log_event list \<Rightarrow> log_event list \<Rightarrow> error + calculator" where
  "calculateAverageAPY_fetching ch latest readPrice depositEvents withdrawEvents =
     (case fetchBlockData ch depositEvents withdrawEvents of
        Inl e \<Rightarrow> Inl e
      | Inr blockCache \<Rightarrow>
          calculateAverageAPY latest readPrice blockCache depositEvents withdrawEvents)"

record total_value =
  totalDepositedBigint :: int
  currentSharesBigint :: int
  currentValueBigint :: int

definition calculatePreciseTotalValue :: "PricedUserInteraction list \<Rightarrow> total_value" where
  "calculatePreciseTotalValue ints =
     (let (deposited, held) =
            foldl (\<lambda>(deposited, held) interaction.
                     if type interaction = deposit
                     then (deposited + assets interaction, held + shares interaction)
                     else (deposited, held - shares interaction))
                  (0, 0) ints;
          currentPriceBigint =
            (if length ints > 0 then pricePerShare (ints ! (length ints - 1)) else 10 ^ 18)
      in \<lparr>totalDepositedBigint = deposited,
          currentSharesBigint = held,
          currentValueBigint = (held * currentPriceBigint) sdiv SCALE\<rparr>)"

record reconciliation =
  calculatedInterest :: int
  simpleInterest :: int
  methodsMatch :: bool

text \<open>
  \<open>reconcileInterestCalculation\<close>. \<open>methodsMatch\<close> says which of the two explanation
  texts the source picks.
\<close>

definition reconcileInterestCalculation ::
    "PricedUserInteraction list \<Rightarrow> calculator \<Rightarrow> reconciliation" where
  "reconcileInterestCalculation ints c =
     (let tv = calculatePreciseTotalValue ints;
          simple = (if currentValueBigint tv > totalDepositedBigint tv
                    then currentValueBigint tv - totalDepositedBigint tv else 0)
      in \<lparr>calculatedInterest = totalInterestAccruedBigint c,
          simpleInterest = simple,
          methodsMatch = (totalInterestAccruedBigint c = simple)\<rparr>)"


section \<open>The tracker (\<open>part_000\<close>)\<close>

text \<open>
  The interfaces of \<open>./types\<close> are not among the sources; the records below hold the
  fields that the tracker reads and writes. \<open>amount\<close> of a timeseries entry is the value
  of \<open>BigInt(entry.amount)\<close>, \<open>None\<close> when that conversion throws. The tracker's
  \<open>UserInteraction\<close> and \<open>Period\<close> both have a field \<open>type\<close>; the period's is
  \<open>periodType\<close>. \<open>formattedAmount\<close>, a string rendered by the \<open>viem\<close> library, is
  left out; the double-valued USD and yield fields of a period are added further down.
\<close>

record TimeseriesEntry =
  entryTimestamp :: int
  amount :: "int option"

record RewardAsset =
  address :: string
  chain_id :: int

record AssetTimeseries =
  asset :: RewardAsset
  timeseries :: "TimeseriesEntry list"

type_synonym RewardsApiResponse = "AssetTimeseries list"

record TokenData =
  symbol :: string
  decimals :: int
  priceUsd :: "string option"

record RewardAccrual = TokenData +
  assetAddress :: string
  chainId :: int
  rawAmount :: int

datatype interval = hour | day

record Period = PeriodSpan +
  periodeNumber :: nat
  periodType :: interaction_type
  positionShares :: int
  positionAmountUnderlyingUnits :: int
  positionAccruedInterestUnderlyingUnits :: int
  rewardsAccrued :: "RewardAccrual list"
  durationInSeconds :: int

text \<open>
  What the tracker asks of the outside world, one answer per question:
  \<^item> \<open>readPricePerShare b\<close>: the two contract reads at block \<open>b\<close> and the quotient the
    source forms from them (\<open>1.0\<close> on a zero supply), scaled; \<open>None\<close> when a read throws;
  \<^item> \<open>getBlock b\<close>: the timestamp of block \<open>b\<close>, \<open>None\<close> when the call rejects;
  \<^item> \<open>getBlockLatest\<close>: number and timestamp of the latest block;
  \<^item> \<open>timestampToDateString\<close>: the helper of that name, \<open>None\<close> when
    \<open>toISOString\<close> throws on an invalid date;
  \<^item> \<open>fetchBalanceTimeseries\<close>: the rewards API, \<open>None\<close> for the \<open>null\<close> it returns
    on any failure;
  \<^item> \<open>fetchTokenData\<close>: token metadata; the source catches every failure in it.
\<close>

record world =
  readPricePerShare :: "int \<Rightarrow> int option"
  getBlock :: "int \<Rightarrow> int option"
  getBlockLatest :: "(int \<times> int) option"
  timestampToDateString :: "int \<Rightarrow> string option"
  fetchBalanceTimeseries :: "string \<Rightarrow> string \<Rightarrow> interval \<Rightarrow> RewardsApiResponse option"
  fetchTokenData :: "string \<Rightarrow> int \<Rightarrow> TokenData"

record tracker =
  periods :: "Period list"
  rewardsCache :: "int \<times> int \<rightharpoonup> RewardAccrual list"
  totalRewardsAccrued :: "int \<times> string \<rightharpoonup> int"

text \<open>The comparator of \<open>sortInteractions\<close>.\<close>

definition compareInteractions :: "UserInteraction \<Rightarrow> UserInteraction \<Rightarrow> int" where
  "compareInteractions a b =
     (if blockNumber a < blockNumber b then - 1
      else if blockNumber a > blockNumber b then 1
      else if type a = deposit \<and> type b = withdraw then - 1
      else if type a = withdraw \<and> type b = deposit then 1
      else 0)"

definition sortInteractions :: "UserInteraction list \<Rightarrow> UserInteraction list" where
  "sortInteractions ints = js_sort compareInteractions ints"

definition tracker_getPricePerShareAtBlock :: "world \<Rightarrow> int \<Rightarrow> int" where
  "tracker_getPricePerShareAtBlock w b =
     (case readPricePerShare w b of Some p \<Rightarrow> p | None \<Rightarrow> 10 ^ 18)"

definition getBlockTimestamp :: "world \<Rightarrow> int \<Rightarrow> error + int" where
  "getBlockTimestamp w b = (case getBlock w b of Some t \<Rightarrow> Inr t | None \<Rightarrow> Inl ClientError)"

text \<open>
  The inner loop of \<open>calculateRewardsForPeriod\<close>: the earliest and the latest entry
  inside the time range, the first one met among equals.
\<close>

fun selectEntries ::
    "int \<Rightarrow> int \<Rightarrow> TimeseriesEntry list \<Rightarrow>
     TimeseriesEntry option \<times> TimeseriesEntry option \<Rightarrow>
     TimeseriesEntry option \<times> TimeseriesEntry option" where
  "selectEntries startTs endTs [] found = found"
| "selectEntries startTs endTs (entry # rest) (firstEntry, lastEntry) =
     (if entryTimestamp entry < startTs \<or> entryTimestamp entry > endTs
      then selectEntries startTs endTs rest (firstEntry, lastEntry)
      else selectEntries startTs endTs rest
             ((case firstEntry of
                 None \<Rightarrow> Some entry
               | Some f \<Rightarrow> if entryTimestamp entry < entryTimestamp f then Some entry
                           else Some f),
              (case lastEntry of
                 None \<Rightarrow> Some entry
               | Some l \<Rightarrow> if entryTimestamp entry > entryTimestamp l then Some entry
                           else Some l)))"

text \<open>The outer loop of \<open>calculateRewardsForPeriod\<close>, over the assets of the response.\<close>

fun rewards_loop ::
    "world \<Rightarrow> int \<Rightarrow> int \<Rightarrow> AssetTimeseries list \<Rightarrow> RewardAccrual list \<Rightarrow>
     error + RewardAccrual list" where
  "rewards_loop w startTs endTs [] rewards = Inr rewards"
| "rewards_loop w startTs endTs (assetData # rest) rewards =
     (if length (timeseries assetData) < 2 then rewards_loop w startTs endTs rest rewards
      else
        (case selectEntries startTs endTs (timeseries assetData) (None, None) of
           (Some firstEntry, Some lastEntry) \<Rightarrow>
             (case amount firstEntry of
                None \<Rightarrow> Inl SyntaxError
              | Some startAmount \<Rightarrow>
                 (case amount lastEntry of
                    None \<Rightarrow> Inl SyntaxError
                  | Some endAmount \<Rightarrow>
                     (let accrued = (if endAmount > startAmount
                                     then endAmount - startAmount else 0)
                      in if accrued = 0 then rewards_loop w startTs endTs rest rewards
                         else
                           (let tokenData = fetchTokenData w (address (asset assetData))
                                              (chain_id (asset assetData))
                            in rewards_loop w startTs endTs rest
                                 (rewards @
                                  [\<lparr>symbol = symbol tokenData,
                                    decimals = decimals tokenData,
                                    priceUsd = priceUsd tokenData,
                                    assetAddress = address (asset assetData),
                                    chainId = chain_id (asset assetData),
                                    rawAmount = accrued\<rparr>])))))
         | _ \<Rightarrow> rewards_loop w startTs endTs rest rewards))"

definition calculateRewardsForPeriod ::
    "world \<Rightarrow> int \<Rightarrow> int \<Rightarrow> error + RewardAccrual list" where
  "calculateRewardsForPeriod w startTs endTs =
     (case timestampToDateString w startTs of
        None \<Rightarrow> Inl InvalidTimeValue
      | Some fromDate \<Rightarrow>
         (case timestampToDateString w endTs of
            None \<Rightarrow> Inl InvalidTimeValue
          | Some toDate \<Rightarrow>
             (let durationSeconds = endTs - startTs;
                  days = (of_int durationSeconds / 86400 :: rat);
                  chosen = (if days > 2 then day else hour)
              in case fetchBalanceTimeseries w fromDate toDate chosen of
                   None \<Rightarrow> Inr []
                 | Some rewardsData \<Rightarrow> rewards_loop w startTs endTs rewardsData [])))"

text \<open>
  \<open>fetchRewardsForPeriod\<close>. The cache key \<open>`${startTimestamp}-${endTimestamp}`\<close> is
  the pair of timestamps, the key \<open>`${chainId}-${assetAddress}`\<close> the pair of its parts.
  The two timestamp calls stand before the \<open>try\<close>, so their failure leaves the function;
  a failure inside \<open>calculateRewardsForPeriod\<close> is caught and gives no rewards.
\<close>

definition fetchRewardsForPeriod ::
    "world \<Rightarrow> tracker \<Rightarrow> int \<Rightarrow> int \<Rightarrow> error + (RewardAccrual list \<times> tracker)" where
  "fetchRewardsForPeriod w t startB endB =
     (case getBlockTimestamp w startB of
        Inl e \<Rightarrow> Inl e
      | Inr startTs \<Rightarrow>
         (case getBlockTimestamp w endB of
            Inl e \<Rightarrow> Inl e
          | Inr endTs \<Rightarrow>
             (case rewardsCache t (startTs, endTs) of
                Some cached \<Rightarrow> Inr (cached, t)
              | None \<Rightarrow>
                 (case calculateRewardsForPeriod w startTs endTs of
                    Inl e \<Rightarrow> Inr ([], t)
                  | Inr rewards \<Rightarrow>
                      Inr (rewards,
                           t\<lparr>rewardsCache := (rewardsCache t)((startTs, endTs) \<mapsto> rewards),
                             totalRewardsAccrued :=
                               foldl (\<lambda>totals reward.
                                        totals((chainId reward, assetAddress reward) \<mapsto>
                                          (case totals (chainId reward, assetAddress reward) of
                                             None \<Rightarrow> 0 | Some currentTotal \<Rightarrow> currentTotal)
                                          + rawAmount reward))
                                     (totalRewardsAccrued t) rewards\<rparr>)))))"

text \<open>
  One iteration of the \<open>for\<close> loop of \<open>calculatePeriods\<close>, at index \<open>i\<close>, on the local
  \<open>currentShares\<close> and the tracker's fields.
\<close>

definition calculatePeriods_body ::
    "world \<Rightarrow> UserInteraction list \<Rightarrow> nat \<Rightarrow> int \<times> tracker \<Rightarrow> error + (int \<times> tracker)" where
  "calculatePeriods_body w ints i state =
    (let interaction = ints ! i;
         shares' = (if type interaction = deposit
                    then fst state + shares interaction
                    else fst state - shares interaction);
         t = snd state
     in if shares' = 0 then Inr (shares', t)
        else
          let isLastInteraction = (i = length ints - 1)
          in case (if isLastInteraction then getBlockLatest w
                   else Some (blockNumber (ints ! (i + 1)), timestamp (ints ! (i + 1)))) of
               None \<Rightarrow> Inl ClientError
             | Some (endB, endTs) \<Rightarrow>
                if \<not> isLastInteraction \<and> blockNumber interaction = endB then Inr (shares', t)
                else
                  let startPricePerShare =
                        tracker_getPricePerShareAtBlock w (blockNumber interaction);
                      endPricePerShare = tracker_getPricePerShareAtBlock w endB;
                      positionUnderlyingStart = (shares' * startPricePerShare) sdiv 10 ^ 18;
                      positionUnderlyingEnd = (shares' * endPricePerShare) sdiv 10 ^ 18;
                      interestUnderlyingUnits = positionUnderlyingEnd - positionUnderlyingStart
                  in case fetchRewardsForPeriod w t (blockNumber interaction) endB of
                       Inl e \<Rightarrow> Inl e
                     | Inr (rewards, t') \<Rightarrow>
                        Inr (if \<not> isLastInteraction \<and> type (ints ! (i + 1)) = withdraw
                                \<and> shares' = shares (ints ! (i + 1))
                             then 0 else shares',
                             t'\<lparr>periods := periods t' @
                                  [\<lparr>startBlock = blockNumber interaction,
                                    endBlock = endB,
                                    startTimestamp = timestamp interaction,
                                    endTimestamp = endTs,
                                    periodeNumber = i + 1,
                                    periodType = type interaction,
                                    positionShares = shares',
                                    positionAmountUnderlyingUnits = positionUnderlyingStart,
                                    positionAccruedInterestUnderlyingUnits =
                                      interestUnderlyingUnits,
                                    rewardsAccrued = rewards,
                                    durationInSeconds = endTs - timestamp interaction\<rparr>]\<rparr>))"

function calculatePeriods_loop ::
    "world \<Rightarrow> UserInteraction list \<Rightarrow> nat \<Rightarrow> int \<times> tracker \<Rightarrow> error + (int \<times> tracker)" where
  "calculatePeriods_loop w ints i state =
     (if i < length ints
      then (case calculatePeriods_body w ints i state of
              Inl e \<Rightarrow> Inl e
            | Inr state' \<Rightarrow> calculatePeriods_loop w ints (i + 1) state')
      else Inr state)"
  by pat_completeness auto
termination
  by (relation "measure (\<lambda>(w, ints, i, state). length ints - i)") auto

definition calculatePeriods :: "world \<Rightarrow> UserInteraction list \<Rightarrow> tracker \<Rightarrow> error + tracker" where
  "calculatePeriods w ints t =
     (if length ints = 0 then Inr t
      else (case calculatePeriods_loop w ints 0 (0, t) of
              Inl e \<Rightarrow> Inl e
            | Inr state \<Rightarrow> Inr (snd state)))"

text \<open>
  \<open>initialize\<close> from the fetched interactions on: a new tracker has no period and empty
  caches; the interactions are sorted, then cut into periods.
\<close>

definition initialize :: "world \<Rightarrow> UserInteraction list \<Rightarrow> error + tracker" where
  "initialize w fetched =
     calculatePeriods w (sortInteractions fetched)
       \<lparr>periods = [], rewardsCache = Map.empty, totalRewardsAccrued = Map.empty\<rparr>"


subsection \<open>The yield figures of a period\<close>

text \<open>
  The USD values and the yield figures of a period are doubles. Their arithmetic is not
  replaced by an exact one: the operations are parameters of the model.
  \<^item> \<open>fromInt n\<close>: the double of an integer literal \<open>n\<close>, and \<open>Number(n)\<close> of a
    \<open>bigint\<close> \<open>n\<close>;
  \<^item> \<open>fadd\<close>, \<open>fsub\<close>, \<open>fmul\<close>, \<open>fdiv\<close>: \<open>+\<close>, \<open>-\<close>, \<open>*\<close>, \<open>/\<close> on doubles;
  \<^item> \<open>Math_pow\<close>: \<open>Math.pow\<close>; \<open>fgt x y\<close>: \<open>x > y\<close>; \<open>parseFloat\<close>: \<open>parseFloat\<close>;
  \<^item> \<open>Number_formatUnits v d\<close>: \<open>Number(formatUnits(v, d))\<close>, and
    \<open>parseFloat_formatUnits v d\<close>: \<open>parseFloat(formatUnits(v, d))\<close>, with
    \<open>formatUnits\<close> of the \<open>viem\<close> library.
\<close>

record 'd double_ops =
  fromInt :: "int \<Rightarrow> 'd"
  fadd :: "'d \<Rightarrow> 'd \<Rightarrow> 'd"
  fsub :: "'d \<Rightarrow> 'd \<Rightarrow> 'd"
  fmul :: "'d \<Rightarrow> 'd \<Rightarrow> 'd"
  fdiv :: "'d \<Rightarrow> 'd \<Rightarrow> 'd"
  Math_pow :: "'d \<Rightarrow> 'd \<Rightarrow> 'd"
  fgt :: "'d \<Rightarrow> 'd \<Rightarrow> bool"
  parseFloat :: "string \<Rightarrow> 'd"
  Number_formatUnits :: "int \<Rightarrow> int \<Rightarrow> 'd"
  parseFloat_formatUnits :: "int \<Rightarrow> int \<Rightarrow> 'd"

text \<open>
  The \<open>Period\<close> of the source with its double-valued fields. \<open>formattedAmount\<close> of a
  reward accrual is \<open>formatUnits(rawAmount, decimals)\<close>.
\<close>

record 'd YieldPeriod = Period +
  positionAmountUSD :: 'd
  positionAccruedInterestUSD :: 'd
  totalRewardsAccruedUSD :: 'd
  nativeAPY :: 'd
  rewardsAPR :: 'd
  totalAPY :: 'd

text \<open>
  The object literal \<open>period\<close> that an iteration of \<open>calculatePeriods\<close> builds, from
  the exact values that the loop has computed and from \<open>this.assetData\<close>. The USD values
  stay \<open>0\<close> unless \<open>this.assetData && this.assetData.priceUsd\<close>: the asset data is
  there and its price is a string that is not empty.
\<close>

definition period_literal :: "'d double_ops \<Rightarrow> TokenData option \<Rightarrow> Period \<Rightarrow> 'd YieldPeriod" where
  "period_literal M assetData p =
     (let (positionUsdValue, interestUsdValue) =
            (case assetData of
               None \<Rightarrow> (fromInt M 0, fromInt M 0)
             | Some a \<Rightarrow>
                (case priceUsd a of
                   None \<Rightarrow> (fromInt M 0, fromInt M 0)
                 | Some str \<Rightarrow>
                     if str = [] then (fromInt M 0, fromInt M 0)
                     else
                       (let price = parseFloat M str;
                            dec = decimals a
                        in (fmul M (Number_formatUnits M (positionAmountUnderlyingUnits p) dec)
                              price,
                            fmul M (Number_formatUnits M
                                      (positionAccruedInterestUnderlyingUnits p) dec)
                              price))));
          rewardsUSD =
            foldl (\<lambda>total reward.
                     case priceUsd reward of
                       None \<Rightarrow> total
                     | Some str \<Rightarrow>
                         if str = [] then total
                         else fadd M total
                                (fmul M (parseFloat_formatUnits M (rawAmount reward)
                                           (decimals reward))
                                   (parseFloat M str)))
                  (fromInt M 0) (rewardsAccrued p)
      in \<lparr>startBlock = startBlock p,
          endBlock = endBlock p,
          startTimestamp = startTimestamp p,
          endTimestamp = endTimestamp p,
          periodeNumber = periodeNumber p,
          periodType = periodType p,
          positionShares = positionShares p,
          positionAmountUnderlyingUnits = positionAmountUnderlyingUnits p,
          positionAccruedInterestUnderlyingUnits = positionAccruedInterestUnderlyingUnits p,
          rewardsAccrued = rewardsAccrued p,
          durationInSeconds = durationInSeconds p,
          positionAmountUSD = positionUsdValue,
          positionAccruedInterestUSD = interestUsdValue,
          totalRewardsAccruedUSD = rewardsUSD,
          nativeAPY = fromInt M 0,
          rewardsAPR = fromInt M 0,
          totalAPY = fromInt M 0\<rparr>)"

text \<open>\<open>calculatePeriodYieldMetrics\<close>.\<close>

definition calculatePeriodYieldMetrics :: "'d double_ops \<Rightarrow> 'd YieldPeriod \<Rightarrow> 'd YieldPeriod" where
  "calculatePeriodYieldMetrics M period =
     (let seconds = endTimestamp period - startTimestamp period;
          annualizationFactor =
            fdiv M (fmul M (fromInt M 365) (fromInt M 86400)) (fromInt M seconds);
          native =
            (if fgt M (positionAmountUSD period) (fromInt M 0)
             then
               (let periodReturn =
                      fdiv M (positionAccruedInterestUSD period) (positionAmountUSD period)
                in fmul M
                     (fsub M (Math_pow M (fadd M (fromInt M 1) periodReturn) annualizationFactor)
                        (fromInt M 1))
                     (fromInt M 100))
             else fromInt M 0);
          rewards =
            (if fgt M (positionAmountUSD period) (fromInt M 0)
             then fmul M
                    (fmul M (fdiv M (totalRewardsAccruedUSD period) (positionAmountUSD period))
                       annualizationFactor)
                    (fromInt M 100)
             else fromInt M 0)
      in period\<lparr>durationInSeconds := seconds,
                nativeAPY := native,
                rewardsAPR := rewards,
                totalAPY := fadd M native rewards\<rparr>)"

text \<open>
  The periods as the tracker pushes them: each iteration passes its literal through
  \<open>calculatePeriodYieldMetrics\<close> and pushes the result. The double-valued fields are
  read by nothing else in \<open>calculatePeriods\<close>.
\<close>

definition yieldPeriods :: "'d double_ops \<Rightarrow> TokenData option \<Rightarrow> tracker \<Rightarrow> 'd YieldPeriod list" where
  "yieldPeriods M assetData t =
     map (\<lambda>p. calculatePeriodYieldMetrics M (period_literal M assetData p)) (periods t)"


section \<open>Predicates on the output\<close>

text \<open>
  What holds of a period at the moment the calculator pushes it: its values come from the
  shares and the two prices, its interest is the clamped difference, its share balance is
  not zero, and its percentage is the guarded quotient.
\<close>

definition emitted_ok :: "EnhancedInterestPeriod \<Rightarrow> bool" where
  "emitted_ok p \<longleftrightarrow>
     startValueBigint p = (sharesHeldBigint p * startPrice p) sdiv SCALE \<and>
     endValueBigint p = (sharesHeldBigint p * endPrice p) sdiv SCALE \<and>
     interestAccruedBigint p = max (endValueBigint p - startValueBigint p) 0 \<and>
     sharesHeldBigint p \<noteq> 0 \<and>
     percentOf (interestAccruedBigint p) (startValueBigint p) = Inr (interestPercent p)"

text \<open>
  The running total \<open>r\<close> is the sum of the interests of the periods pushed so far, and
  each period holds the sum up to and including its own.
\<close>

definition prefix_sums_ok :: "EnhancedInterestPeriod list \<Rightarrow> int \<Rightarrow> bool" where
  "prefix_sums_ok ps r \<longleftrightarrow>
     r = sum_list (map interestAccruedBigint ps) \<and>
     map cumulativeInterest ps =
       map (\<lambda>k. sum_list (map interestAccruedBigint (take (Suc k) ps))) [0..<length ps]"


text \<open>
  The order of the ledger: by block number, and at one block a deposit before a
  withdrawal.
\<close>

definition ledger_before ::
    "'a UserInteraction_scheme \<Rightarrow> 'a UserInteraction_scheme \<Rightarrow> bool" where
  "ledger_before a b \<longleftrightarrow>
     blockNumber a < blockNumber b \<or>
     (blockNumber a = blockNumber b \<and> (type a = deposit \<or> type b = withdraw))"

text \<open>
  On the tracker's side: every accrual of a reward list is positive, every cached list
  is such a list, and a pushed period has the start value and the signed interest that
  the two prices give, a nonzero share balance, distinct boundary blocks unless it
  belongs to the last interaction, and a positive reward list.
\<close>

definition rewards_positive :: "RewardAccrual list \<Rightarrow> bool" where
  "rewards_positive rs \<longleftrightarrow> (\<forall>r\<in>set rs. 0 < rawAmount r)"

definition cache_positive :: "tracker \<Rightarrow> bool" where
  "cache_positive t \<longleftrightarrow> (\<forall>k rs. rewardsCache t k = Some rs \<longrightarrow> rewards_positive rs)"

definition tracker_period_ok :: "world \<Rightarrow> nat \<Rightarrow> Period \<Rightarrow> bool" where
  "tracker_period_ok w n p \<longleftrightarrow>
     positionAmountUnderlyingUnits p =
       (positionShares p * tracker_getPricePerShareAtBlock w (startBlock p)) sdiv 10 ^ 18 \<and>
     positionAccruedInterestUnderlyingUnits p =
       (positionShares p * tracker_getPricePerShareAtBlock w (endBlock p)) sdiv 10 ^ 18
         - positionAmountUnderlyingUnits p \<and>
     positionShares p \<noteq> 0 \<and>
     (periodeNumber p = n \<or> startBlock p \<noteq> endBlock p) \<and>
     durationInSeconds p = endTimestamp p - startTimestamp p \<and>
     rewards_positive (rewardsAccrued p)"

text \<open>
  The price that the batched fetch stores for a block: none when a read fails or returns
  zero.
\<close>

definition batchPrice :: "chain \<Rightarrow> int \<Rightarrow> int option" where
  "batchPrice ch b =
     (case totalAssets ch b of
        None \<Rightarrow> None
      | Some a \<Rightarrow>
         (case totalSupply ch b of
            None \<Rightarrow> None
          | Some s \<Rightarrow> if a \<noteq> 0 \<and> s \<noteq> 0
                      then Some (if 0 < s then quotientScaled ch a s else 10 ^ 18)
                      else None))"

text \<open>
  \<open>this.assetData && this.assetData.priceUsd\<close>, and the compounding formula
  \<open>((1 + r)^AF - 1) * 100\<close> written with the operations on doubles.
\<close>

definition hasUsdPrice :: "TokenData option \<Rightarrow> bool" where
  "hasUsdPrice assetData \<longleftrightarrow>
     (case assetData of
        None \<Rightarrow> False
      | Some a \<Rightarrow> (case priceUsd a of None \<Rightarrow> False | Some str \<Rightarrow> str \<noteq> []))"

definition compounded :: "'d double_ops \<Rightarrow> 'd \<Rightarrow> 'd \<Rightarrow> 'd" where
  "compounded M r af =
     fmul M (fsub M (Math_pow M (fadd M (fromInt M 1) r) af) (fromInt M 1)) (fromInt M 100)"

section \<open>Worked inputs\<close>

text \<open>
  The prices used below are \<open>0.5\<close>, \<open>1.0\<close>, \<open>1.25\<close> and \<open>1.5\<close>: for these the
  product \<open>price * 1e18\<close> is exact in doubles, so the scaled integers written here are
  the ones the source computes.
\<close>

definition priced ::
    "int \<Rightarrow> int \<Rightarrow> interaction_type \<Rightarrow> int \<Rightarrow> int \<Rightarrow> int \<Rightarrow> PricedUserInteraction" where
  "priced b ts ty a s p =
     \<lparr>blockNumber = b, timestamp = ts, type = ty, assets = a, shares = s, pricePerShare = p\<rparr>"

text \<open>
  Two deposits \<open>3500\<close> seconds apart at price \<open>1.0\<close>, a partial withdrawal a day later
  at \<open>1.25\<close>, and the latest block at \<open>1.5\<close>.
\<close>

definition three_periods_run :: "error + calculator" where
  "three_periods_run =
     calculatePreciseInterestBetweenInteractions (Some (20, 200000)) (\<lambda>b. None)
       (\<lambda>b n. Some (15 * 10 ^ 17))
       [priced 5 0 deposit 1000 1000 (10 ^ 18),
        priced 6 3500 deposit 1000 1000 (10 ^ 18),
        priced 7 90000 withdraw 500 500 (125 * 10 ^ 16)]"

text \<open>A single deposit at price \<open>1.0\<close>, seen a day later at \<open>1.5\<close>.\<close>

definition single_run :: "error + calculator" where
  "single_run =
     calculatePreciseInterestBetweenInteractions (Some (20, 86400)) (\<lambda>b. None)
       (\<lambda>b n. Some (15 * 10 ^ 17))
       [priced 5 0 deposit 1000 1000 (10 ^ 18)]"

text \<open>A single deposit of \<open>3\<close> shares at \<open>1.0\<close>, worth \<open>4\<close> units at \<open>1.5\<close>.\<close>

definition small_gain_run :: "error + calculator" where
  "small_gain_run =
     calculatePreciseInterestBetweenInteractions (Some (20, 86400)) (\<lambda>b. None)
       (\<lambda>b n. Some (15 * 10 ^ 17))
       [priced 5 0 deposit 3 3 (10 ^ 18)]"

definition plain :: "int \<Rightarrow> int \<Rightarrow> interaction_type \<Rightarrow> int \<Rightarrow> int \<Rightarrow> UserInteraction" where
  "plain b ts ty a s = \<lparr>blockNumber = b, timestamp = ts, type = ty, assets = a, shares = s\<rparr>"

definition unknown_token :: TokenData where
  "unknown_token = \<lparr>symbol = ''UNKNOWN'', decimals = 18, priceUsd = None\<rparr>"

text \<open>A reward response with one balance that grows and one that shrinks.\<close>

definition two_assets :: RewardsApiResponse where
  "two_assets =
     [\<lparr>asset = \<lparr>address = ''0xaa'', chain_id = 8453\<rparr>,
       timeseries = [\<lparr>entryTimestamp = 60, amount = Some 5\<rparr>,
                     \<lparr>entryTimestamp = 150, amount = Some 9\<rparr>]\<rparr>,
      \<lparr>asset = \<lparr>address = ''0xbb'', chain_id = 8453\<rparr>,
       timeseries = [\<lparr>entryTimestamp = 60, amount = Some 9\<rparr>,
                     \<lparr>entryTimestamp = 150, amount = Some 5\<rparr>]\<rparr>]"

text \<open>
  A world in which block \<open>b\<close> has timestamp \<open>10 * b\<close> and the rewards API always
  answers \<open>two_assets\<close>; the price reads and the latest block are left open.
\<close>

definition demo_world :: "(int \<Rightarrow> int option) \<Rightarrow> (int \<times> int) option \<Rightarrow> world" where
  "demo_world prices latest =
     \<lparr>readPricePerShare = prices,
      getBlock = (\<lambda>b. Some (b * 10)),
      getBlockLatest = latest,
      timestampToDateString = (\<lambda>ts. Some ''2025-02-23''),
      fetchBalanceTimeseries = (\<lambda>fromDate toDate chosen. Some two_assets),
      fetchTokenData = (\<lambda>a c. unknown_token)\<rparr>"

definition flat_world :: world where
  "flat_world = demo_world (\<lambda>b. Some (10 ^ 18)) (Some (20, 200))"

definition falling_world :: world where
  "falling_world =
     demo_world (\<lambda>b. if b = 5 then Some (10 ^ 18) else Some (5 * 10 ^ 17)) (Some (20, 200))"

definition silent_world :: world where
  "silent_world = demo_world (\<lambda>b. None) (Some (20, 200))"

definition early_world :: world where
  "early_world = demo_world (\<lambda>b. Some (10 ^ 18)) (Some (6, 51))"

text \<open>The silent world with a rewards API that answers nothing.\<close>

definition quiet_world :: world where
  "quiet_world = silent_world\<lparr>fetchBalanceTimeseries := (\<lambda>fromDate toDate chosen. None)\<rparr>"

text \<open>A deposit of \<open>100\<close> shares at block \<open>5\<close>, withdrawn in full at block \<open>10\<close>.\<close>

definition closing_run :: "error + tracker" where
  "closing_run =
     initialize flat_world [plain 5 50 deposit 100 100, plain 10 100 withdraw 100 100]"

text \<open>One deposit, then the price falls from \<open>1.0\<close> to \<open>0.5\<close>.\<close>

definition falling_run :: "error + tracker" where
  "falling_run = initialize falling_world [plain 5 50 deposit 100 100]"

text \<open>One deposit, looked at one second and one block later.\<close>

definition brief_run :: "error + tracker" where
  "brief_run = initialize early_world [plain 5 50 deposit 100 100]"

text \<open>One deposit, in a world where every price read fails.\<close>

definition unpriced_run :: "error + tracker" where
  "unpriced_run = initialize silent_world [plain 5 50 deposit 100 100]"


text \<open>
  A single deposit of \<open>30000\<close> shares at \<open>1.0\<close>, seen a day later at the price
  \<open>1.00006103515625\<close>, for which \<open>Math.floor(price * 1e18)\<close> is
  \<open>1000061035156249984\<close>: the position is then worth \<open>30001\<close> units.
\<close>

definition tiny_gain_run :: "error + calculator" where
  "tiny_gain_run =
     calculatePreciseInterestBetweenInteractions (Some (20, 86400)) (\<lambda>b. None)
       (\<lambda>b n. Some 1000061035156249984)
       [priced 5 0 deposit 30000 30000 (10 ^ 18)]"

text \<open>The only iteration of the tracker's loop in \<open>brief_run\<close>.\<close>

definition brief_step :: "error + (int \<times> tracker)" where
  "brief_step =
     calculatePeriods_body early_world [plain 5 50 deposit 100 100] 0
       (0, \<lparr>periods = [], rewardsCache = Map.empty, totalRewardsAccrued = Map.empty\<rparr>)"

text \<open>
  A chain on which block \<open>b\<close> has timestamp \<open>10 * b\<close>, the vault holds \<open>3\<close> units of
  assets for \<open>2\<close> units of shares, a price of \<open>1.5\<close>, and at block \<open>6\<close> reports no
  assets at all; and the same chain with a failing read at block \<open>6\<close>.
\<close>

definition demo_chain :: chain where
  "demo_chain =
     \<lparr>blockTimestamp = (\<lambda>b. Some (b * 10)),
      totalAssets = (\<lambda>b. if b = 6 then Some 0 else Some (3 * 10 ^ 18)),
      totalSupply = (\<lambda>b. Some (2 * 10 ^ 18)),
      quotientScaled = (\<lambda>a s. a * 10 ^ 18 div s)\<rparr>"

definition failing_chain :: chain where
  "failing_chain = demo_chain\<lparr>totalAssets := (\<lambda>b. if b = 6 then None else Some (3 * 10 ^ 18))\<rparr>"

definition event :: "int \<Rightarrow> int \<Rightarrow> int \<Rightarrow> log_event" where
  "event b a s = \<lparr>eventBlock = b, eventAssets = a, eventShares = s\<rparr>"

definition demo_block_data :: "error + (int \<rightharpoonup> block_data)" where
  "demo_block_data = fetchBlockData demo_chain [event 5 1000 1000, event 6 1000 1000] []"


text \<open>
  An exact arithmetic on the reals in the place of the doubles, for worked runs whose
  figures are exact in doubles as well; a price string is read as a whole number.
\<close>

definition whole_number :: "string \<Rightarrow> int" where
  "whole_number s =
     foldl (\<lambda>n c. n * 10 + (int (of_char c) - 48)) 0
       (takeWhile (\<lambda>c. 48 \<le> (of_char c :: nat) \<and> (of_char c :: nat) \<le> 57) s)"

definition exact_ops :: "real double_ops" where
  "exact_ops =
     \<lparr>fromInt = of_int, fadd = (+), fsub = (-), fmul = (*), fdiv = (/), Math_pow = (powr),
      fgt = (\<lambda>x y. y < x),
      parseFloat = (\<lambda>s. of_int (whole_number s)),
      Number_formatUnits = (\<lambda>v d. of_int v / 10 ^ nat d),
      parseFloat_formatUnits = (\<lambda>v d. of_int v / 10 ^ nat d)\<rparr>"

text \<open>
  One deposit of \<open>100\<close> shares at price \<open>1.0\<close>, seen exactly \<open>365\<close> days later at
  \<open>1.5\<close>, with no rewards; and an underlying asset without a USD price and one at
  \<open>2\<close> dollars.
\<close>

definition year_world :: world where
  "year_world =
     \<lparr>readPricePerShare = (\<lambda>b. if b = 5 then Some (10 ^ 18) else Some (15 * 10 ^ 17)),
      getBlock = (\<lambda>b. if b = 5 then Some 50 else Some 31536050),
      getBlockLatest = Some (20, 31536050),
      timestampToDateString = (\<lambda>ts. Some ''2025-02-23''),
      fetchBalanceTimeseries = (\<lambda>fromDate toDate chosen. Some []),
      fetchTokenData = (\<lambda>a c. unknown_token)\<rparr>"

definition year_run :: "error + tracker" where
  "year_run = initialize year_world [plain 5 50 deposit 100 100]"

definition unpriced_asset :: TokenData where
  "unpriced_asset = \<lparr>symbol = ''USDC'', decimals = 0, priceUsd = None\<rparr>"

definition priced_asset :: TokenData where
  "priced_asset = \<lparr>symbol = ''USDC'', decimals = 0, priceUsd = Some ''2''\<rparr>"


section \<open>Properties of the calculator\<close>

lemma percentOf_eq:
  "percentOf n d = Inr (Hundredths (if 0 < d then n * 10000 sdiv d else 0))"
  by (simp add: percentOf_def bigint_div_def)

lemma prefix_sums_ok_Nil: "prefix_sums_ok [] 0"
  by (simp add: prefix_sums_ok_def)

lemma prefix_sums_ok_snoc:
  assumes "prefix_sums_ok ps r" and "cumulativeInterest p = r + interestAccruedBigint p"
  shows "prefix_sums_ok (ps @ [p]) (r + interestAccruedBigint p)"
  using assms by (simp add: prefix_sums_ok_def)

lemma prefix_sums_ok_nth:
  assumes "prefix_sums_ok ps r" and "k < length ps"
  shows "cumulativeInterest (ps ! k) = sum_list (map interestAccruedBigint (take (Suc k) ps))"
proof -
  have "cumulativeInterest (ps ! k) = map cumulativeInterest ps ! k"
    using assms(2) by simp
  also have "\<dots> = map (\<lambda>k. sum_list (map interestAccruedBigint (take (Suc k) ps))) [0..<length ps] ! k"
    using assms(1) by (simp add: prefix_sums_ok_def)
  also have "\<dots> = sum_list (map interestAccruedBigint (take (Suc k) ps))"
    using assms(2) by simp
  finally show ?thesis .
qed

lemma preciseInterest_body_cases:
  assumes "preciseInterest_body ints i st = Inr st'"
  shows "(enhancedPeriods st' = enhancedPeriods st \<and> runningInterest st' = runningInterest st) \<or>
         (\<exists>p. enhancedPeriods st' = enhancedPeriods st @ [p] \<and> emitted_ok p \<and>
              runningInterest st' = runningInterest st + interestAccruedBigint p \<and>
              cumulativeInterest p = runningInterest st')"
  using assms
  by (auto simp: preciseInterest_body_def Let_def emitted_ok_def split: if_splits sum.splits)

lemma preciseInterest_body_error:
  assumes "preciseInterest_body ints i st = Inl e"
  shows "e = InvalidTimeValue"
  using assms
  by (auto simp: preciseInterest_body_def Let_def percentOf_eq toISOString_def
           split: if_splits)

lemma preciseInterest_loop_error:
  assumes "preciseInterest_loop ints i st = Inl e"
  shows "e = InvalidTimeValue"
  using assms
proof (induction ints i st rule: preciseInterest_loop.induct)
  case (1 ints i st)
  show ?case
  proof (cases "i < length ints")
    case True
    show ?thesis
    proof (cases "preciseInterest_body ints i st")
      case (Inl e')
      with "1.prems" True have "e' = e" by simp
      with Inl show ?thesis using preciseInterest_body_error by blast
    next
      case (Inr st1)
      with "1.prems" True have "preciseInterest_loop ints (i + 1) st1 = Inl e" by simp
      with "1.IH" [OF True Inr] show ?thesis by blast
    qed
  next
    case False
    with "1.prems" show ?thesis by simp
  qed
qed

lemma preciseInterest_loop_inv:
  assumes "preciseInterest_loop ints i st = Inr st'"
    and "prefix_sums_ok (enhancedPeriods st) (runningInterest st)"
    and "\<forall>p\<in>set (enhancedPeriods st). emitted_ok p"
  shows "prefix_sums_ok (enhancedPeriods st') (runningInterest st') \<and>
         (\<forall>p\<in>set (enhancedPeriods st'). emitted_ok p)"
  using assms
proof (induction ints i st rule: preciseInterest_loop.induct)
  case (1 ints i st)
  show ?case
  proof (cases "i < length ints")
    case True
    then obtain st1 where b: "preciseInterest_body ints i st = Inr st1"
      using "1.prems"(1) by (cases "preciseInterest_body ints i st") auto
    have l: "preciseInterest_loop ints (i + 1) st1 = Inr st'"
      using "1.prems"(1) True b by simp
    have "prefix_sums_ok (enhancedPeriods st1) (runningInterest st1) \<and>
          (\<forall>p\<in>set (enhancedPeriods st1). emitted_ok p)"
      using preciseInterest_body_cases [OF b] "1.prems"(2,3)
      by (auto simp: prefix_sums_ok_snoc)
    then show ?thesis
      using "1.IH" [OF True b l] by blast
  next
    case False
    with 1 show ?thesis by simp
  qed
qed


lemma calculateInterestToLatestBlock_cases:
  assumes "calculateInterestToLatestBlock latest cache readPrice ints sh cum c = Inr c'"
  shows "c' = c \<or>
         (\<exists>p. periodsOut c' = periodsOut c @ [p] \<and> emitted_ok p \<and>
              cumulativeInterest p = cum + interestAccruedBigint p \<and>
              totalInterestAccruedBigint c' = cum + interestAccruedBigint p \<and>
              sharesHeldBigint p = sh \<and>
              startPrice p = pricePerShare (ints ! (length ints - 1)) \<and>
              (\<exists>n t. latest = Some (n, t) \<and> endBlock p = n \<and>
                     endPrice p = calc_getPricePerShareAtBlock cache readPrice n 3))"
proof (cases "sh = 0 \<or> length ints = 0")
  case True
  with assms show ?thesis by (simp add: calculateInterestToLatestBlock_def)
next
  case False
  then obtain n t where lt: "latest = Some (n, t)"
    using assms by (cases latest) (auto simp: calculateInterestToLatestBlock_def Let_def)
  define lp where "lp = (case cache n of Some p \<Rightarrow> p
                         | None \<Rightarrow> calc_getPricePerShareAtBlock cache readPrice n 3)"
  have lp: "lp = calc_getPricePerShareAtBlock cache readPrice n 3"
    by (cases "cache n") (simp_all add: lp_def)
  show ?thesis
  proof (cases "(of_int (t - timestamp (ints ! (length ints - 1))) / 86400 :: rat) > 4 / 100")
    case long: True
    define sv where "sv = (sh * pricePerShare (ints ! (length ints - 1))) sdiv SCALE"
    define ev where "ev = (sh * lp) sdiv SCALE"
    define p :: EnhancedInterestPeriod where
      "p = \<lparr>startBlock = blockNumber (ints ! (length ints - 1)),
             endBlock = n,
             startTimestamp = timestamp (ints ! (length ints - 1)),
             endTimestamp = t,
             periodIndex = length (periodsOut c) + 1,
             startPrice = pricePerShare (ints ! (length ints - 1)),
             endPrice = lp,
             durationDays = of_int (t - timestamp (ints ! (length ints - 1))) / 86400,
             interestPercent =
               Hundredths (if 0 < sv then max (ev - sv) 0 * 10000 sdiv sv else 0),
             sharesHeldBigint = sh,
             startValueBigint = sv,
             endValueBigint = ev,
             interestAccruedBigint = max (ev - sv) 0,
             cumulativeInterest = cum + max (ev - sv) 0,
             cumulativeInterestPercent =
               Hundredths
                 (if 0 < calculateTotalDepositedUpToInteraction ints (length ints - 1)
                  then (cum + max (ev - sv) 0) * 10000 sdiv
                       calculateTotalDepositedUpToInteraction ints (length ints - 1)
                  else 0)\<rparr>"
    have dates: "toISOString x = Inr () \<or> toISOString x = Inl InvalidTimeValue" for x
      by (simp add: toISOString_def)
    have d1: "toISOString (timestamp (ints ! (length ints - 1))) = Inr ()"
    proof (rule ccontr)
      assume "toISOString (timestamp (ints ! (length ints - 1))) \<noteq> Inr ()"
      with dates have "toISOString (timestamp (ints ! (length ints - 1))) = Inl InvalidTimeValue"
        by blast
      with assms False long show False
        by (simp add: calculateInterestToLatestBlock_def lt Let_def percentOf_eq)
    qed
    have d2: "toISOString t = Inr ()"
    proof (rule ccontr)
      assume "toISOString t \<noteq> Inr ()"
      with dates have "toISOString t = Inl InvalidTimeValue" by blast
      with assms False long d1 show False
        by (simp add: calculateInterestToLatestBlock_def lt Let_def percentOf_eq)
    qed
    have "calculateInterestToLatestBlock latest cache readPrice ints sh cum c =
          Inr \<lparr>periodsOut = periodsOut c @ [p],
               totalInterestAccruedBigint = cum + interestAccruedBigint p\<rparr>"
      using False long d1 d2
      by (simp add: calculateInterestToLatestBlock_def lt lp_def sv_def ev_def p_def
                    Let_def percentOf_eq max_def)
    with assms have c': "c' = \<lparr>periodsOut = periodsOut c @ [p],
               totalInterestAccruedBigint = cum + interestAccruedBigint p\<rparr>" by simp
    have "emitted_ok p"
      using False long by (simp add: emitted_ok_def percentOf_eq p_def sv_def ev_def)
    moreover have "cumulativeInterest p = cum + interestAccruedBigint p"
      and "sharesHeldBigint p = sh"
      and "startPrice p = pricePerShare (ints ! (length ints - 1))"
      and "endBlock p = n"
      and "endPrice p = calc_getPricePerShareAtBlock cache readPrice n 3"
      by (simp_all add: p_def lp)
    ultimately show ?thesis using c' lt by simp
  next
    case short: False
    with False assms lt show ?thesis
      by (simp add: calculateInterestToLatestBlock_def Let_def)
  qed
qed

lemma calculateInterestToLatestBlock_error:
  assumes "calculateInterestToLatestBlock latest cache readPrice ints sh cum c = Inl e"
  shows "(e = ClientError \<and> latest = None) \<or> e = InvalidTimeValue"
proof (cases latest)
  case None
  with assms show ?thesis
    by (simp add: calculateInterestToLatestBlock_def Let_def split: if_splits)
next
  case (Some nt)
  obtain n t where "nt = (n, t)" by (cases nt)
  with Some assms show ?thesis
    unfolding calculateInterestToLatestBlock_def Let_def percentOf_eq toISOString_def
    by (auto split: if_splits)
qed

lemma calculator_periods_inv:
  assumes "calculatePreciseInterestBetweenInteractions latest cache readPrice ints = Inr c"
  shows "(\<exists>r. prefix_sums_ok (periodsOut c) r) \<and> (\<forall>p\<in>set (periodsOut c). emitted_ok p)"
proof -
  obtain st where st: "preciseInterest_loop ints 0
      \<lparr>currentShares = 0, runningInterest = 0, enhancedPeriods = []\<rparr> = Inr st"
    using assms
    by (cases "preciseInterest_loop ints 0
                 \<lparr>currentShares = 0, runningInterest = 0, enhancedPeriods = []\<rparr>")
       (auto simp: calculatePreciseInterestBetweenInteractions_def)
  have inv: "prefix_sums_ok (enhancedPeriods st) (runningInterest st) \<and>
             (\<forall>p\<in>set (enhancedPeriods st). emitted_ok p)"
    using preciseInterest_loop_inv [OF st] by (simp add: prefix_sums_ok_Nil)
  have fin: "calculateInterestToLatestBlock latest cache readPrice ints
               (currentShares st) (runningInterest st)
               \<lparr>periodsOut = enhancedPeriods st, totalInterestAccruedBigint = 0\<rparr> = Inr c"
    using assms st by (simp add: calculatePreciseInterestBetweenInteractions_def)
  from calculateInterestToLatestBlock_cases [OF fin] show ?thesis
  proof
    assume "c = \<lparr>periodsOut = enhancedPeriods st, totalInterestAccruedBigint = 0\<rparr>"
    with inv show ?thesis by auto
  next
    assume "\<exists>p. periodsOut c =
                 periodsOut \<lparr>periodsOut = enhancedPeriods st, totalInterestAccruedBigint = 0\<rparr> @ [p] \<and>
               emitted_ok p \<and>
               cumulativeInterest p = runningInterest st + interestAccruedBigint p \<and>
               totalInterestAccruedBigint c = runningInterest st + interestAccruedBigint p \<and>
               sharesHeldBigint p = currentShares st \<and>
               startPrice p = pricePerShare (ints ! (length ints - 1)) \<and>
               (\<exists>n t. latest = Some (n, t) \<and> endBlock p = n \<and>
                      endPrice p = calc_getPricePerShareAtBlock cache readPrice n 3)"
    then obtain p where p: "periodsOut c = enhancedPeriods st @ [p]" "emitted_ok p"
        "cumulativeInterest p = runningInterest st + interestAccruedBigint p"
      by auto
    have "prefix_sums_ok (periodsOut c) (runningInterest st + interestAccruedBigint p)"
      using inv p by (simp add: prefix_sums_ok_snoc)
    with inv p show ?thesis by auto
  qed
qed

lemma calculator_error:
  assumes "calculatePreciseInterestBetweenInteractions latest cache readPrice ints = Inl e"
  shows "(e = ClientError \<and> latest = None) \<or> e = InvalidTimeValue"
proof (cases "preciseInterest_loop ints 0
                \<lparr>currentShares = 0, runningInterest = 0, enhancedPeriods = []\<rparr>")
  case (Inl e')
  with assms have "e' = e"
    by (simp add: calculatePreciseInterestBetweenInteractions_def)
  with Inl show ?thesis using preciseInterest_loop_error by blast
next
  case (Inr st)
  have "calculateInterestToLatestBlock latest cache readPrice ints
               (currentShares st) (runningInterest st)
               \<lparr>periodsOut = enhancedPeriods st, totalInterestAccruedBigint = 0\<rparr> = Inl e"
    using assms Inr by (simp add: calculatePreciseInterestBetweenInteractions_def)
  then show ?thesis by (rule calculateInterestToLatestBlock_error)
qed


text \<open>
  C5. In the calculator's output, the \<open>cumulativeInterest\<close> recorded on period \<open>k\<close> is
  exactly the sum of \<open>interestAccruedBigint\<close> over the periods \<open>0..k\<close>, in index order.
\<close>

theorem cumulativeInterest_is_prefix_sum:
  assumes "calculatePreciseInterestBetweenInteractions latest cache readPrice ints = Inr c"
    and "k < length (periodsOut c)"
  shows "cumulativeInterest (periodsOut c ! k) =
         sum_list (map interestAccruedBigint (take (Suc k) (periodsOut c)))"
proof -
  obtain r where "prefix_sums_ok (periodsOut c) r"
    using calculator_periods_inv [OF assms(1)] by blast
  then show ?thesis using assms(2) by (rule prefix_sums_ok_nth)
qed

theorem cumulativeInterest_is_prefix_sum_witness:
  "three_periods_run = Inr (projr three_periods_run) \<and>
   2 < length (periodsOut (projr three_periods_run)) \<and>
   cumulativeInterest (periodsOut (projr three_periods_run) ! 2) =
     sum_list (map interestAccruedBigint (take (Suc 2) (periodsOut (projr three_periods_run)))) \<and>
   map interestAccruedBigint (periodsOut (projr three_periods_run)) = [0, 375, 375] \<and>
   map cumulativeInterest (periodsOut (projr three_periods_run)) = [0, 375, 750]"
proof -
  have run: "calculatePreciseInterestBetweenInteractions (Some (20, 200000)) (\<lambda>b. None)
       (\<lambda>b n. Some (15 * 10 ^ 17))
       [priced 5 0 deposit 1000 1000 (10 ^ 18),
        priced 6 3500 deposit 1000 1000 (10 ^ 18),
        priced 7 90000 withdraw 500 500 (125 * 10 ^ 16)] = Inr (projr three_periods_run)"
    by code_simp
  have len: "2 < length (periodsOut (projr three_periods_run))"
    by code_simp
  have a: "map interestAccruedBigint (periodsOut (projr three_periods_run)) = [0, 375, 375]"
    by code_simp
  have b: "map cumulativeInterest (periodsOut (projr three_periods_run)) = [0, 375, 750]"
    by code_simp
  have r: "three_periods_run = Inr (projr three_periods_run)"
    using run by (simp add: three_periods_run_def)
  show ?thesis
    using r len a b cumulativeInterest_is_prefix_sum [OF run len] by blast
qed


section \<open>Sorting the ledger\<close>

lemma set_js_insert: "set (js_insert cmp x xs) = insert x (set xs)"
  by (induction xs) auto

lemma mset_js_insert: "mset (js_insert cmp x xs) = add_mset x (mset xs)"
  by (induction xs) auto

lemma mset_js_sort: "mset (js_sort cmp xs) = mset xs"
  by (induction xs) (simp_all add: js_sort_def mset_js_insert)

lemma sorted_js_insert:
  assumes tot: "\<And>a b. cmp a b \<le> 0 \<or> cmp b a \<le> 0"
    and tr: "\<And>a b c. cmp a b \<le> 0 \<Longrightarrow> cmp b c \<le> 0 \<Longrightarrow> cmp a c \<le> 0"
    and "sorted_wrt (\<lambda>a b. cmp a b \<le> 0) xs"
  shows "sorted_wrt (\<lambda>a b. cmp a b \<le> 0) (js_insert cmp x xs)"
  using assms(3)
proof (induction xs)
  case Nil
  then show ?case by simp
next
  case (Cons y ys)
  show ?case
  proof (cases "cmp x y \<le> 0")
    case True
    then have "\<forall>z\<in>set ys. cmp x z \<le> 0"
      using Cons.prems tr by auto
    with True Cons.prems show ?thesis by simp
  next
    case False
    then have "cmp y x \<le> 0" using tot [of x y] by simp
    with False Cons show ?thesis by (auto simp: set_js_insert)
  qed
qed

lemma sorted_js_sort:
  assumes "\<And>a b. cmp a b \<le> 0 \<or> cmp b a \<le> 0"
    and "\<And>a b c. cmp a b \<le> 0 \<Longrightarrow> cmp b c \<le> 0 \<Longrightarrow> cmp a c \<le> 0"
  shows "sorted_wrt (\<lambda>a b. cmp a b \<le> 0) (js_sort cmp xs)"
proof (induction xs)
  case Nil
  show ?case by (simp add: js_sort_def)
next
  case (Cons x xs)
  have "js_sort cmp (x # xs) = js_insert cmp x (js_sort cmp xs)"
    by (simp add: js_sort_def)
  with Cons sorted_js_insert [of cmp, OF assms] show ?case by simp
qed

lemma compareInteractions_le: "compareInteractions a b \<le> 0 \<longleftrightarrow> ledger_before a b"
  by (cases "type a"; cases "type b") (auto simp: compareInteractions_def ledger_before_def)

lemma sorted_sortInteractions: "sorted_wrt ledger_before (sortInteractions ints)"
proof -
  have "sorted_wrt (\<lambda>a b. compareInteractions a b \<le> 0) (js_sort compareInteractions ints)"
  proof (rule sorted_js_sort)
    fix a b :: UserInteraction
    show "compareInteractions a b \<le> 0 \<or> compareInteractions b a \<le> 0"
      unfolding compareInteractions_le
      by (cases "type a"; cases "type b") (auto simp: ledger_before_def)
  next
    fix a b c :: UserInteraction
    assume "compareInteractions a b \<le> 0" "compareInteractions b c \<le> 0"
    then show "compareInteractions a c \<le> 0"
      unfolding compareInteractions_le
      by (cases "type a"; cases "type b"; cases "type c") (auto simp: ledger_before_def)
  qed
  then show ?thesis by (simp add: compareInteractions_le sortInteractions_def)
qed

text \<open>The sort by block number keeps the input order inside each block.\<close>

lemma filter_js_insert_byBlock:
  "filter (\<lambda>y. blockNumber y = k) (js_insert compareByBlock x xs) =
   (if blockNumber x = k then x # filter (\<lambda>y. blockNumber y = k) xs
    else filter (\<lambda>y. blockNumber y = k) xs)"
  by (induction xs) (auto simp: compareByBlock_def)

lemma filter_sortByBlock:
  "filter (\<lambda>y. blockNumber y = k) (sortByBlock xs) = filter (\<lambda>y. blockNumber y = k) xs"
  by (induction xs) (simp_all add: sortByBlock_def js_sort_def filter_js_insert_byBlock)

lemma sorted_sortByBlock:
  "sorted_wrt (\<lambda>a b. blockNumber a \<le> blockNumber b) (sortByBlock xs)"
proof -
  have "sorted_wrt (\<lambda>a b. compareByBlock a b \<le> 0) (js_sort compareByBlock xs)"
    by (rule sorted_js_sort) (auto simp: compareByBlock_def)
  then show ?thesis by (simp add: compareByBlock_def sortByBlock_def)
qed

lemma sorted_wrt_by_groups:
  assumes "sorted_wrt (\<lambda>a b. f a \<le> (f b :: int)) xs"
    and "\<And>k. sorted_wrt T (filter (\<lambda>y. f y = k) xs)"
  shows "sorted_wrt (\<lambda>a b. f a < f b \<or> (f a = f b \<and> T a b)) xs"
  using assms
proof (induction xs)
  case Nil
  show ?case by simp
next
  case (Cons x xs)
  have tail: "\<And>k. sorted_wrt T (filter (\<lambda>y. f y = k) xs)"
  proof -
    fix k
    from Cons.prems(2) [of k] show "sorted_wrt T (filter (\<lambda>y. f y = k) xs)"
      by (cases "f x = k") simp_all
  qed
  have head: "\<forall>y\<in>set xs. f x < f y \<or> (f x = f y \<and> T x y)"
  proof
    fix y assume y: "y \<in> set xs"
    then have le: "f x \<le> f y" using Cons.prems(1) by simp
    show "f x < f y \<or> (f x = f y \<and> T x y)"
    proof (cases "f x = f y")
      case True
      from Cons.prems(2) [of "f x"] have "\<forall>z\<in>set (filter (\<lambda>y. f y = f x) xs). T x z"
        by simp
      with y True show ?thesis by simp
    next
      case False
      with le show ?thesis by simp
    qed
  qed
  from Cons.IH [OF _ tail] Cons.prems(1) head show ?case by simp
qed

lemma type_attach_block_data:
  "attach_block_data bc te = Some x \<Longrightarrow> type x = fst te \<and> blockNumber x = eventBlock (snd te)"
  by (auto simp: attach_block_data_def split: option.splits)

lemma in_set_map_filterD:
  "x \<in> set (List.map_filter f xs) \<Longrightarrow> \<exists>y\<in>set xs. f y = Some x"
  by (induction xs) (auto simp: map_filter_simps split: option.splits)

lemma deposits_then_withdrawals:
  fixes xs ys :: "PricedUserInteraction list"
  assumes "\<forall>x\<in>set xs. type x = deposit" and "\<forall>x\<in>set ys. type x = withdraw"
  shows "sorted_wrt (\<lambda>a b. type a = deposit \<or> type b = withdraw) (xs @ ys)"
proof -
  have "sorted_wrt (\<lambda>a b. type a = deposit \<or> type b = withdraw) xs"
    using assms(1) by (induction xs) auto
  moreover have "sorted_wrt (\<lambda>a b. type a = deposit \<or> type b = withdraw) ys"
    using assms(2) by (induction ys) auto
  ultimately show ?thesis
    using assms(1) by (simp add: sorted_wrt_append)
qed

lemma fetched_deposits_first:
  "sorted_wrt (\<lambda>a b. type a = deposit \<or> type b = withdraw)
     (calc_fetchUserInteractions bc ds ws)"
proof -
  have d: "\<forall>x\<in>set (List.map_filter (attach_block_data bc) (map (Pair deposit) ds)). type x = deposit"
    using type_attach_block_data by (fastforce dest!: in_set_map_filterD)
  have w: "\<forall>x\<in>set (List.map_filter (attach_block_data bc) (map (Pair withdraw) ws)). type x = withdraw"
    using type_attach_block_data by (fastforce dest!: in_set_map_filterD)
  show ?thesis
    using deposits_then_withdrawals [OF d w]
    by (simp add: calc_fetchUserInteractions_def map_filter_def)
qed

lemma sorted_sortByBlock_fetched:
  "sorted_wrt ledger_before (sortByBlock (calc_fetchUserInteractions bc ds ws))"
proof -
  let ?xs = "calc_fetchUserInteractions bc ds ws"
  have "sorted_wrt (\<lambda>a b. type a = deposit \<or> type b = withdraw)
          (filter (\<lambda>y. blockNumber y = k) (sortByBlock ?xs))" for k
    using fetched_deposits_first [of bc ds ws]
    by (simp add: filter_sortByBlock sorted_wrt_filter)
  with sorted_sortByBlock [of ?xs]
  have "sorted_wrt (\<lambda>a b. blockNumber a < blockNumber b \<or>
          (blockNumber a = blockNumber b \<and> (type a = deposit \<or> type b = withdraw)))
          (sortByBlock ?xs)"
    by (rule sorted_wrt_by_groups)
  then show ?thesis unfolding ledger_before_def .
qed

text \<open>
  C6. Whatever the order of the input, the interactions come out by ascending block
  number with, at one block, deposits before withdrawals. The tracker's comparator
  orders both; the calculator compares block numbers only, and its stable sort keeps the
  deposits in front because \<open>fetchUserInteractions\<close> collects them first.
\<close>

theorem sort_ledger_order:
  "sorted_wrt ledger_before (sortInteractions ints) \<and>
   mset (sortInteractions ints) = mset ints \<and>
   sorted_wrt ledger_before (sortByBlock (calc_fetchUserInteractions bc ds ws)) \<and>
   mset (sortByBlock (calc_fetchUserInteractions bc ds ws)) =
     mset (calc_fetchUserInteractions bc ds ws)"
  using sorted_sortInteractions [of ints] sorted_sortByBlock_fetched [of bc ds ws]
  by (simp add: sortInteractions_def sortByBlock_def mset_js_sort)


section \<open>Properties of the tracker\<close>

lemma rewards_loop_positive:
  assumes "rewards_loop w s e as acc = Inr rs" and "rewards_positive acc"
  shows "rewards_positive rs"
  using assms
proof (induction as arbitrary: acc)
  case Nil
  then show ?case by simp
next
  case (Cons a as)
  from Cons.prems(1)
  have "rewards_loop w s e as acc = Inr rs \<or>
        (\<exists>r. 0 < rawAmount r \<and> rewards_loop w s e as (acc @ [r]) = Inr rs)"
    by (simp add: Let_def split: if_splits prod.splits option.splits) force
  then show ?case
  proof
    assume "rewards_loop w s e as acc = Inr rs"
    then show ?thesis using Cons.prems(2) by (rule Cons.IH)
  next
    assume "\<exists>r. 0 < rawAmount r \<and> rewards_loop w s e as (acc @ [r]) = Inr rs"
    then obtain r where r: "0 < rawAmount r" "rewards_loop w s e as (acc @ [r]) = Inr rs"
      by blast
    have "rewards_positive (acc @ [r])"
      using r(1) Cons.prems(2) by (simp add: rewards_positive_def)
    with r(2) show ?thesis by (rule Cons.IH)
  qed
qed

lemma calculateRewardsForPeriod_positive:
  assumes "calculateRewardsForPeriod w s e = Inr rs"
  shows "rewards_positive rs"
proof -
  have nil: "rewards_positive []" by (simp add: rewards_positive_def)
  from assms show ?thesis
    by (auto simp: calculateRewardsForPeriod_def Let_def nil
             split: option.splits if_splits intro: rewards_loop_positive [OF _ nil])
qed

lemma fetchRewardsForPeriod_inv:
  assumes "fetchRewardsForPeriod w t sb eb = Inr (rs, t')" and "cache_positive t"
  shows "rewards_positive rs \<and> cache_positive t' \<and> periods t' = periods t"
proof -
  from assms(1) obtain s e where se: "getBlock w sb = Some s" "getBlock w eb = Some e"
    by (auto simp: fetchRewardsForPeriod_def getBlockTimestamp_def split: option.splits)
  show ?thesis
  proof (cases "rewardsCache t (s, e)")
    case (Some cached)
    with assms se show ?thesis
      by (auto simp: fetchRewardsForPeriod_def getBlockTimestamp_def cache_positive_def)
  next
    case None
    show ?thesis
    proof (cases "calculateRewardsForPeriod w s e")
      case (Inl err)
      with None assms se show ?thesis
        by (auto simp: fetchRewardsForPeriod_def getBlockTimestamp_def rewards_positive_def)
    next
      case (Inr rewards)
      then have "rewards_positive rewards" by (rule calculateRewardsForPeriod_positive)
      with Inr None assms se show ?thesis
        by (auto simp: fetchRewardsForPeriod_def getBlockTimestamp_def cache_positive_def
                 split: if_splits)
    qed
  qed
qed

lemma calculatePeriods_body_cases:
  assumes body: "calculatePeriods_body w ints i state = Inr state'"
    and pos: "cache_positive (snd state)"
    and i: "i < length ints"
  shows "cache_positive (snd state') \<and>
         (periods (snd state') = periods (snd state) \<or>
          (\<exists>p. periods (snd state') = periods (snd state) @ [p] \<and>
               tracker_period_ok w (length ints) p \<and> periodeNumber p = i + 1))"
proof -
  define sh where "sh = (if type (ints ! i) = deposit then fst state + shares (ints ! i)
                         else fst state - shares (ints ! i))"
  define lst where "lst \<longleftrightarrow> i = length ints - 1"
  define ending where "ending = (if lst then getBlockLatest w
       else Some (blockNumber (ints ! (i + 1)), timestamp (ints ! (i + 1))))"
  have unfold: "calculatePeriods_body w ints i state =
    (if sh = 0 then Inr (sh, snd state)
     else case ending of
        None \<Rightarrow> Inl ClientError
      | Some (endB, endTs) \<Rightarrow>
          if \<not> lst \<and> blockNumber (ints ! i) = endB then Inr (sh, snd state)
          else case fetchRewardsForPeriod w (snd state) (blockNumber (ints ! i)) endB of
                 Inl e \<Rightarrow> Inl e
               | Inr (rewards, t') \<Rightarrow>
                   Inr (if \<not> lst \<and> type (ints ! (i + 1)) = withdraw \<and> sh = shares (ints ! (i + 1))
                        then 0 else sh,
                        t'\<lparr>periods := periods t' @
                           [\<lparr>startBlock = blockNumber (ints ! i),
                             endBlock = endB,
                             startTimestamp = timestamp (ints ! i),
                             endTimestamp = endTs,
                             periodeNumber = i + 1,
                             periodType = type (ints ! i),
                             positionShares = sh,
                             positionAmountUnderlyingUnits =
                               (sh * tracker_getPricePerShareAtBlock w (blockNumber (ints ! i)))
                                 sdiv 10 ^ 18,
                             positionAccruedInterestUnderlyingUnits =
                               (sh * tracker_getPricePerShareAtBlock w endB) sdiv 10 ^ 18 -
                               (sh * tracker_getPricePerShareAtBlock w (blockNumber (ints ! i)))
                                 sdiv 10 ^ 18,
                             rewardsAccrued = rewards,
                             durationInSeconds = endTs - timestamp (ints ! i)\<rparr>]\<rparr>))"
    unfolding calculatePeriods_body_def Let_def sh_def lst_def ending_def
    by (simp cong: sum.case_cong option.case_cong prod.case_cong)
  show ?thesis
  proof (cases "sh = 0")
    case True
    with body pos unfold show ?thesis by auto
  next
    case sh: False
    then obtain endB endTs where e: "ending = Some (endB, endTs)"
      using body unfold by (cases ending) auto
    show ?thesis
    proof (cases "\<not> lst \<and> blockNumber (ints ! i) = endB")
      case True
      with body pos unfold sh e show ?thesis by auto
    next
      case go: False
      then obtain rewards t' where
        f: "fetchRewardsForPeriod w (snd state) (blockNumber (ints ! i)) endB = Inr (rewards, t')"
        using body unfold sh e
        by (cases "fetchRewardsForPeriod w (snd state) (blockNumber (ints ! i)) endB") auto
      from fetchRewardsForPeriod_inv [OF f pos]
      have inv: "rewards_positive rewards" "cache_positive t'" "periods t' = periods (snd state)"
        by auto
      have lst': "lst \<Longrightarrow> i + 1 = length ints"
        using i by (auto simp: lst_def)
      from body unfold sh e go f inv lst' show ?thesis
        by (auto simp: cache_positive_def tracker_period_ok_def)
    qed
  qed
qed


lemma calculatePeriods_loop_inv:
  assumes "calculatePeriods_loop w ints i state = Inr state'"
    and "cache_positive (snd state)"
    and "\<forall>p\<in>set (periods (snd state)). tracker_period_ok w (length ints) p"
  shows "\<forall>p\<in>set (periods (snd state')). tracker_period_ok w (length ints) p"
  using assms
proof (induction w ints i state rule: calculatePeriods_loop.induct)
  case (1 w ints i state)
  show ?case
  proof (cases "i < length ints")
    case True
    then obtain st1 where b: "calculatePeriods_body w ints i state = Inr st1"
      using "1.prems"(1) by (cases "calculatePeriods_body w ints i state") auto
    have l: "calculatePeriods_loop w ints (i + 1) st1 = Inr state'"
      using "1.prems"(1) True b by simp
    from calculatePeriods_body_cases [OF b "1.prems"(2) True] "1.prems"(3)
    have "cache_positive (snd st1)"
      and "\<forall>p\<in>set (periods (snd st1)). tracker_period_ok w (length ints) p"
      by auto
    then show ?thesis
      using "1.IH" [OF True b l] by blast
  next
    case False
    with 1 show ?thesis by simp
  qed
qed

lemma initialize_periods_ok:
  assumes "initialize w fetched = Inr t" and "p \<in> set (periods t)"
  shows "tracker_period_ok w (length fetched) p"
proof -
  let ?ints = "sortInteractions fetched"
  let ?t0 = "\<lparr>periods = [], rewardsCache = Map.empty, totalRewardsAccrued = Map.empty\<rparr>"
  have len: "length ?ints = length fetched"
    by (metis mset_js_sort size_mset sortInteractions_def)
  show ?thesis
  proof (cases "length ?ints = 0")
    case True
    with assms show ?thesis by (auto simp: initialize_def calculatePeriods_def)
  next
    case False
    then obtain state where l: "calculatePeriods_loop w ?ints 0 (0, ?t0) = Inr state"
        and t: "t = snd state"
      using assms(1)
      by (cases "calculatePeriods_loop w ?ints 0 (0, ?t0)")
         (auto simp: initialize_def calculatePeriods_def)
    have "\<forall>p\<in>set (periods (snd state)). tracker_period_ok w (length ?ints) p"
      by (rule calculatePeriods_loop_inv [OF l]) (simp_all add: cache_positive_def)
    with assms(2) t len show ?thesis by simp
  qed
qed



lemma run_collapse: "\<not> isl x \<Longrightarrow> x = Inr (projr x)"
  by (cases x) simp_all

text \<open>
  C7. A deposit of \<open>100\<close> shares at block \<open>5\<close> and a withdrawal of the same \<open>100\<close>
  shares at block \<open>10\<close>: the tracker emits the period from \<open>5\<close> to \<open>10\<close> and then a
  second period that starts at the closing withdrawal, with \<open>-100\<close> shares. After
  pushing the first period it sets \<open>currentShares\<close> to zero in advance, and the next
  iteration subtracts the withdrawn shares once more.
\<close>

theorem closing_withdrawal_opens_period:
  "\<not> isl closing_run \<and>
   map startBlock (periods (projr closing_run)) = [5, 10] \<and>
   map endBlock (periods (projr closing_run)) = [10, 20] \<and>
   map periodType (periods (projr closing_run)) = [deposit, withdraw] \<and>
   map positionShares (periods (projr closing_run)) = [100, - 100]"
  by code_simp

text \<open>
  C10. Every accrual in the reward list of an emitted period has a strictly positive
  \<open>rawAmount\<close>; an asset whose balance at the last entry of the window is not above the
  one at the first entry is skipped, so it does not appear in the list.
\<close>

theorem reward_accruals_positive:
  "(initialize w fetched = Inr t \<longrightarrow> p \<in> set (periods t) \<longrightarrow> r \<in> set (rewardsAccrued p) \<longrightarrow>
      0 < rawAmount r) \<and>
   (selectEntries s e (timeseries a) (None, None) = (Some f, Some l) \<longrightarrow>
      amount f = Some x \<longrightarrow> amount l = Some y \<longrightarrow> y \<le> x \<longrightarrow>
      rewards_loop w s e (a # rest) acc = rewards_loop w s e rest acc)"
proof (intro conjI impI)
  assume "initialize w fetched = Inr t" and "p \<in> set (periods t)"
  then have "tracker_period_ok w (length fetched) p" by (rule initialize_periods_ok)
  moreover assume "r \<in> set (rewardsAccrued p)"
  ultimately show "0 < rawAmount r"
    by (simp add: tracker_period_ok_def rewards_positive_def)
next
  assume "selectEntries s e (timeseries a) (None, None) = (Some f, Some l)"
    and "amount f = Some x" and "amount l = Some y" and "y \<le> x"
  then show "rewards_loop w s e (a # rest) acc = rewards_loop w s e rest acc"
    by simp
qed

theorem reward_accruals_positive_witness:
  "initialize falling_world [plain 5 50 deposit 100 100] = Inr (projr falling_run) \<and>
   periods (projr falling_run) ! 0 \<in> set (periods (projr falling_run)) \<and>
   rewardsAccrued (periods (projr falling_run) ! 0) ! 0
     \<in> set (rewardsAccrued (periods (projr falling_run) ! 0)) \<and>
   0 < rawAmount (rewardsAccrued (periods (projr falling_run) ! 0) ! 0) \<and>
   map (map rawAmount \<circ> rewardsAccrued) (periods (projr falling_run)) = [[4]] \<and>
   selectEntries 50 200 (timeseries (two_assets ! 1)) (None, None) =
     (Some \<lparr>entryTimestamp = 60, amount = Some 9\<rparr>,
      Some \<lparr>entryTimestamp = 150, amount = Some 5\<rparr>) \<and>
   rewards_loop falling_world 50 200 [two_assets ! 1] [] =
     rewards_loop falling_world 50 200 [] []"
proof -
  have ok: "\<not> isl falling_run" by code_simp
  have run: "initialize falling_world [plain 5 50 deposit 100 100] = Inr (projr falling_run)"
    using run_collapse [OF ok] by (simp add: falling_run_def)
  have "0 < length (periods (projr falling_run))" by code_simp
  then have p: "periods (projr falling_run) ! 0 \<in> set (periods (projr falling_run))"
    by (rule nth_mem)
  have "0 < length (rewardsAccrued (periods (projr falling_run) ! 0))" by code_simp
  then have r: "rewardsAccrued (periods (projr falling_run) ! 0) ! 0
     \<in> set (rewardsAccrued (periods (projr falling_run) ! 0))"
    by (rule nth_mem)
  have all: "map (map rawAmount \<circ> rewardsAccrued) (periods (projr falling_run)) = [[4]]"
    by code_simp
  have sel: "selectEntries 50 200 (timeseries (two_assets ! 1)) (None, None) =
     (Some \<lparr>entryTimestamp = 60, amount = Some 9\<rparr>,
      Some \<lparr>entryTimestamp = 150, amount = Some 5\<rparr>)"
    by code_simp
  have am: "amount \<lparr>entryTimestamp = 60, amount = Some 9\<rparr> = Some (9::int)"
       "amount \<lparr>entryTimestamp = 150, amount = Some 5\<rparr> = Some (5::int)" "(5::int) \<le> 9"
    by simp_all
  show ?thesis
    using run p r all sel am
      reward_accruals_positive [where w = falling_world
         and fetched = "[plain 5 50 deposit 100 100]"
         and t = "projr falling_run" and p = "periods (projr falling_run) ! 0"
         and r = "rewardsAccrued (periods (projr falling_run) ! 0) ! 0"
         and s = 50 and e = 200 and a = "two_assets ! 1"
         and f = "\<lparr>entryTimestamp = 60, amount = Some 9\<rparr>"
         and l = "\<lparr>entryTimestamp = 150, amount = Some 5\<rparr>" and x = 9 and y = 5
         and rest = "[]" and acc = "[]"]
    by blast
qed


section \<open>Native interest\<close>

lemma sdiv_mono:
  assumes "a \<le> b" and "0 < (c::int)"
  shows "a sdiv c \<le> b sdiv c"
proof -
  consider (pos) "0 \<le> a" | (mixed) "a < 0" "0 \<le> b" | (neg) "b < 0" by linarith
  then show ?thesis
  proof cases
    case pos
    with assms have "a sdiv c = a div c" "b sdiv c = b div c"
      by (simp_all add: signed_divide_int_def sgn_if)
    with assms show ?thesis by (simp add: zdiv_mono1)
  next
    case mixed
    have "a sdiv c = - (\<bar>a\<bar> div c)" using mixed assms
      by (simp add: signed_divide_int_def sgn_if)
    moreover have "0 \<le> \<bar>a\<bar> div c" using assms by (simp add: pos_imp_zdiv_nonneg_iff)
    moreover have "b sdiv c = b div c" using mixed assms
      by (simp add: signed_divide_int_def sgn_if)
    moreover have "0 \<le> b div c" using mixed assms by (simp add: pos_imp_zdiv_nonneg_iff)
    ultimately show ?thesis by linarith
  next
    case neg
    with assms have "a sdiv c = - (\<bar>a\<bar> div c)" "b sdiv c = - (\<bar>b\<bar> div c)"
      by (simp_all add: signed_divide_int_def sgn_if)
    moreover have "\<bar>b\<bar> div c \<le> \<bar>a\<bar> div c"
      using neg assms by (intro zdiv_mono1) simp_all
    ultimately show ?thesis by linarith
  qed
qed

text \<open>
  C1, as the code has it. A period of the calculator has
  \<open>startValueBigint = sharesHeldBigint * startPrice / 10^18\<close>, the same for the end, and
  \<open>interestAccruedBigint = max (endValueBigint - startValueBigint) 0\<close>, which is never
  negative. A period of the tracker has the start value formed the same way and, as its
  interest, the signed difference of end value and start value: no clamp. On a positive
  share balance that difference is at most zero when the end price is not above the start
  price, and at least zero when the end price is not below it.
\<close>

theorem native_interest_by_analyser:
  "(calculatePreciseInterestBetweenInteractions latest cache readPrice ints = Inr c \<longrightarrow>
      p \<in> set (periodsOut c) \<longrightarrow>
        startValueBigint p = (sharesHeldBigint p * startPrice p) sdiv SCALE \<and>
        endValueBigint p = (sharesHeldBigint p * endPrice p) sdiv SCALE \<and>
        interestAccruedBigint p = max (endValueBigint p - startValueBigint p) 0 \<and>
        0 \<le> interestAccruedBigint p) \<and>
   (initialize w fetched = Inr t \<longrightarrow> q \<in> set (periods t) \<longrightarrow>
        positionAmountUnderlyingUnits q =
          (positionShares q * tracker_getPricePerShareAtBlock w (startBlock q)) sdiv 10 ^ 18 \<and>
        positionAccruedInterestUnderlyingUnits q =
          (positionShares q * tracker_getPricePerShareAtBlock w (endBlock q)) sdiv 10 ^ 18
            - positionAmountUnderlyingUnits q \<and>
        (0 < positionShares q \<longrightarrow>
           tracker_getPricePerShareAtBlock w (endBlock q)
             \<le> tracker_getPricePerShareAtBlock w (startBlock q) \<longrightarrow>
           positionAccruedInterestUnderlyingUnits q \<le> 0) \<and>
        (0 < positionShares q \<longrightarrow>
           tracker_getPricePerShareAtBlock w (startBlock q)
             \<le> tracker_getPricePerShareAtBlock w (endBlock q) \<longrightarrow>
           0 \<le> positionAccruedInterestUnderlyingUnits q))"
proof (intro conjI impI)
  assume "calculatePreciseInterestBetweenInteractions latest cache readPrice ints = Inr c"
    and "p \<in> set (periodsOut c)"
  then have ok: "emitted_ok p" using calculator_periods_inv by blast
  then show "startValueBigint p = (sharesHeldBigint p * startPrice p) sdiv SCALE"
    and "endValueBigint p = (sharesHeldBigint p * endPrice p) sdiv SCALE"
    and "interestAccruedBigint p = max (endValueBigint p - startValueBigint p) 0"
    and "0 \<le> interestAccruedBigint p"
    by (simp_all add: emitted_ok_def)
next
  assume "initialize w fetched = Inr t" and "q \<in> set (periods t)"
  then have ok: "tracker_period_ok w (length fetched) q" by (rule initialize_periods_ok)
  then show a: "positionAmountUnderlyingUnits q =
          (positionShares q * tracker_getPricePerShareAtBlock w (startBlock q)) sdiv 10 ^ 18"
    and b: "positionAccruedInterestUnderlyingUnits q =
          (positionShares q * tracker_getPricePerShareAtBlock w (endBlock q)) sdiv 10 ^ 18
            - positionAmountUnderlyingUnits q"
    by (simp_all add: tracker_period_ok_def)
  {
    assume sh: "0 < positionShares q"
      and le: "tracker_getPricePerShareAtBlock w (endBlock q)
                 \<le> tracker_getPricePerShareAtBlock w (startBlock q)"
    have "positionShares q * tracker_getPricePerShareAtBlock w (endBlock q)
            \<le> positionShares q * tracker_getPricePerShareAtBlock w (startBlock q)"
      using sh le by simp
    then have "(positionShares q * tracker_getPricePerShareAtBlock w (endBlock q)) sdiv 10 ^ 18
            \<le> (positionShares q * tracker_getPricePerShareAtBlock w (startBlock q)) sdiv 10 ^ 18"
      by (rule sdiv_mono) simp
    then show "positionAccruedInterestUnderlyingUnits q \<le> 0"
      unfolding b a by simp
  }
  {
    assume sh: "0 < positionShares q"
      and le: "tracker_getPricePerShareAtBlock w (startBlock q)
                 \<le> tracker_getPricePerShareAtBlock w (endBlock q)"
    have "positionShares q * tracker_getPricePerShareAtBlock w (startBlock q)
            \<le> positionShares q * tracker_getPricePerShareAtBlock w (endBlock q)"
      using sh le by simp
    then have "(positionShares q * tracker_getPricePerShareAtBlock w (startBlock q)) sdiv 10 ^ 18
            \<le> (positionShares q * tracker_getPricePerShareAtBlock w (endBlock q)) sdiv 10 ^ 18"
      by (rule sdiv_mono) simp
    then show "0 \<le> positionAccruedInterestUnderlyingUnits q"
      unfolding b a by simp
  }
qed

theorem native_interest_by_analyser_witness:
  "calculatePreciseInterestBetweenInteractions (Some (20, 86400)) (\<lambda>b. None)
       (\<lambda>b n. Some (15 * 10 ^ 17)) [priced 5 0 deposit 1000 1000 (10 ^ 18)]
     = Inr (projr single_run) \<and>
   periodsOut (projr single_run) ! 0 \<in> set (periodsOut (projr single_run)) \<and>
   interestAccruedBigint (periodsOut (projr single_run) ! 0) =
     max (endValueBigint (periodsOut (projr single_run) ! 0)
          - startValueBigint (periodsOut (projr single_run) ! 0)) 0 \<and>
   interestAccruedBigint (periodsOut (projr single_run) ! 0) = 500 \<and>
   initialize falling_world [plain 5 50 deposit 100 100] = Inr (projr falling_run) \<and>
   periods (projr falling_run) ! 0 \<in> set (periods (projr falling_run)) \<and>
   0 < positionShares (periods (projr falling_run) ! 0) \<and>
   tracker_getPricePerShareAtBlock falling_world (endBlock (periods (projr falling_run) ! 0))
     \<le> tracker_getPricePerShareAtBlock falling_world
          (startBlock (periods (projr falling_run) ! 0)) \<and>
   positionAccruedInterestUnderlyingUnits (periods (projr falling_run) ! 0) =
     (positionShares (periods (projr falling_run) ! 0) *
      tracker_getPricePerShareAtBlock falling_world (endBlock (periods (projr falling_run) ! 0)))
       sdiv 10 ^ 18
     - positionAmountUnderlyingUnits (periods (projr falling_run) ! 0) \<and>
   positionAccruedInterestUnderlyingUnits (periods (projr falling_run) ! 0) \<le> 0 \<and>
   positionAccruedInterestUnderlyingUnits (periods (projr falling_run) ! 0) = - 50 \<and>
   initialize flat_world [plain 5 50 deposit 100 100, plain 10 100 withdraw 100 100]
     = Inr (projr closing_run) \<and>
   periods (projr closing_run) ! 0 \<in> set (periods (projr closing_run)) \<and>
   0 < positionShares (periods (projr closing_run) ! 0) \<and>
   tracker_getPricePerShareAtBlock flat_world (startBlock (periods (projr closing_run) ! 0))
     \<le> tracker_getPricePerShareAtBlock flat_world
          (endBlock (periods (projr closing_run) ! 0)) \<and>
   0 \<le> positionAccruedInterestUnderlyingUnits (periods (projr closing_run) ! 0)"
proof -
  have "\<not> isl single_run" by code_simp
  then have run: "calculatePreciseInterestBetweenInteractions (Some (20, 86400)) (\<lambda>b. None)
       (\<lambda>b n. Some (15 * 10 ^ 17)) [priced 5 0 deposit 1000 1000 (10 ^ 18)]
     = Inr (projr single_run)"
    using run_collapse by (simp add: single_run_def)
  have "0 < length (periodsOut (projr single_run))" by code_simp
  then have p: "periodsOut (projr single_run) ! 0 \<in> set (periodsOut (projr single_run))"
    by (rule nth_mem)
  have v: "interestAccruedBigint (periodsOut (projr single_run) ! 0) = 500" by code_simp
  have "\<not> isl falling_run" by code_simp
  then have run': "initialize falling_world [plain 5 50 deposit 100 100] = Inr (projr falling_run)"
    using run_collapse by (simp add: falling_run_def)
  have "0 < length (periods (projr falling_run))" by code_simp
  then have q: "periods (projr falling_run) ! 0 \<in> set (periods (projr falling_run))"
    by (rule nth_mem)
  have sh: "0 < positionShares (periods (projr falling_run) ! 0)" by code_simp
  have le: "tracker_getPricePerShareAtBlock falling_world
              (endBlock (periods (projr falling_run) ! 0))
     \<le> tracker_getPricePerShareAtBlock falling_world
          (startBlock (periods (projr falling_run) ! 0))"
    by code_simp
  have v': "positionAccruedInterestUnderlyingUnits (periods (projr falling_run) ! 0) = - 50"
    by code_simp
  have "\<not> isl closing_run" by code_simp
  then have run'': "initialize flat_world
                      [plain 5 50 deposit 100 100, plain 10 100 withdraw 100 100]
                    = Inr (projr closing_run)"
    using run_collapse by (simp add: closing_run_def)
  have "0 < length (periods (projr closing_run))" by code_simp
  then have q': "periods (projr closing_run) ! 0 \<in> set (periods (projr closing_run))"
    by (rule nth_mem)
  have sh': "0 < positionShares (periods (projr closing_run) ! 0)" by code_simp
  have le': "tracker_getPricePerShareAtBlock flat_world
               (startBlock (periods (projr closing_run) ! 0))
     \<le> tracker_getPricePerShareAtBlock flat_world
          (endBlock (periods (projr closing_run) ! 0))"
    by code_simp
  show ?thesis
    using run p v run' q sh le v' run'' q' sh' le'
      native_interest_by_analyser [where latest = "Some (20, 86400)" and cache = "\<lambda>b. None"
        and readPrice = "\<lambda>b n. Some (15 * 10 ^ 17)"
        and ints = "[priced 5 0 deposit 1000 1000 (10 ^ 18)]" and c = "projr single_run"
        and p = "periodsOut (projr single_run) ! 0" and w = falling_world
        and fetched = "[plain 5 50 deposit 100 100]" and t = "projr falling_run"
        and q = "periods (projr falling_run) ! 0"]
      native_interest_by_analyser [where latest = "Some (20, 86400)" and cache = "\<lambda>b. None"
        and readPrice = "\<lambda>b n. Some (15 * 10 ^ 17)"
        and ints = "[priced 5 0 deposit 1000 1000 (10 ^ 18)]" and c = "projr single_run"
        and p = "periodsOut (projr single_run) ! 0" and w = flat_world
        and fetched = "[plain 5 50 deposit 100 100, plain 10 100 withdraw 100 100]"
        and t = "projr closing_run"
        and q = "periods (projr closing_run) ! 0"]
    by blast
qed

text \<open>
  The claim as stated fails on the tracker: one deposit of \<open>100\<close> shares, the price
  falling from \<open>1.0\<close> to \<open>0.5\<close>, gives an emitted period with interest \<open>-50\<close>.
\<close>

theorem tracker_reports_negative_interest:
  "\<not> isl falling_run \<and>
   map positionAmountUnderlyingUnits (periods (projr falling_run)) = [100] \<and>
   map positionAccruedInterestUnderlyingUnits (periods (projr falling_run)) = [- 50] \<and>
   \<not> (\<forall>q\<in>set (periods (projr falling_run)). 0 \<le> positionAccruedInterestUnderlyingUnits q)"
  by code_simp


section \<open>Short periods\<close>

lemma fetchRewardsForPeriod_periods:
  assumes "fetchRewardsForPeriod w t sb eb = Inr (rs, t')"
  shows "periods t' = periods t"
  using assms
  by (auto simp: fetchRewardsForPeriod_def getBlockTimestamp_def
           split: option.splits sum.splits)

lemma calculatePeriods_body_pushes:
  assumes body: "calculatePeriods_body w ints i state = Inr state'"
    and i: "i < length ints"
  shows "if (if type (ints ! i) = deposit then fst state + shares (ints ! i)
             else fst state - shares (ints ! i)) \<noteq> 0 \<and>
            (i + 1 = length ints \<or> blockNumber (ints ! i) \<noteq> blockNumber (ints ! (i + 1)))
         then \<exists>p. periods (snd state') = periods (snd state) @ [p] \<and>
                  startTimestamp p = timestamp (ints ! i) \<and>
                  durationInSeconds p = endTimestamp p - startTimestamp p
         else periods (snd state') = periods (snd state)"
proof -
  define sh where "sh = (if type (ints ! i) = deposit then fst state + shares (ints ! i)
                         else fst state - shares (ints ! i))"
  define lst where "lst \<longleftrightarrow> i = length ints - 1"
  define ending where "ending = (if lst then getBlockLatest w
       else Some (blockNumber (ints ! (i + 1)), timestamp (ints ! (i + 1))))"
  have unfold: "calculatePeriods_body w ints i state =
    (if sh = 0 then Inr (sh, snd state)
     else case ending of
        None \<Rightarrow> Inl ClientError
      | Some (endB, endTs) \<Rightarrow>
          if \<not> lst \<and> blockNumber (ints ! i) = endB then Inr (sh, snd state)
          else case fetchRewardsForPeriod w (snd state) (blockNumber (ints ! i)) endB of
                 Inl e \<Rightarrow> Inl e
               | Inr (rewards, t') \<Rightarrow>
                   Inr (if \<not> lst \<and> type (ints ! (i + 1)) = withdraw \<and> sh = shares (ints ! (i + 1))
                        then 0 else sh,
                        t'\<lparr>periods := periods t' @
                           [\<lparr>startBlock = blockNumber (ints ! i),
                             endBlock = endB,
                             startTimestamp = timestamp (ints ! i),
                             endTimestamp = endTs,
                             periodeNumber = i + 1,
                             periodType = type (ints ! i),
                             positionShares = sh,
                             positionAmountUnderlyingUnits =
                               (sh * tracker_getPricePerShareAtBlock w (blockNumber (ints ! i)))
                                 sdiv 10 ^ 18,
                             positionAccruedInterestUnderlyingUnits =
                               (sh * tracker_getPricePerShareAtBlock w endB) sdiv 10 ^ 18 -
                               (sh * tracker_getPricePerShareAtBlock w (blockNumber (ints ! i)))
                                 sdiv 10 ^ 18,
                             rewardsAccrued = rewards,
                             durationInSeconds = endTs - timestamp (ints ! i)\<rparr>]\<rparr>))"
    unfolding calculatePeriods_body_def Let_def sh_def lst_def ending_def
    by (simp cong: sum.case_cong option.case_cong prod.case_cong)
  have lst': "lst \<longleftrightarrow> i + 1 = length ints"
    using i by (auto simp: lst_def)
  show ?thesis
  proof (cases "sh = 0")
    case True
    with body unfold show ?thesis unfolding sh_def [symmetric] by auto
  next
    case sh: False
    then obtain endB endTs where e: "ending = Some (endB, endTs)"
      using body unfold by (cases ending) auto
    have endB: "\<not> lst \<Longrightarrow> endB = blockNumber (ints ! (i + 1))"
      using e by (simp add: ending_def)
    show ?thesis
    proof (cases "\<not> lst \<and> blockNumber (ints ! i) = endB")
      case True
      with body unfold sh e endB lst' show ?thesis unfolding sh_def [symmetric] by auto
    next
      case go: False
      then obtain rewards t' where
        f: "fetchRewardsForPeriod w (snd state) (blockNumber (ints ! i)) endB = Inr (rewards, t')"
        using body unfold sh e
        by (cases "fetchRewardsForPeriod w (snd state) (blockNumber (ints ! i)) endB") auto
      have same: "periods t' = periods (snd state)"
        using f by (rule fetchRewardsForPeriod_periods)
      from body unfold sh e go f same endB lst' show ?thesis
        unfolding sh_def [symmetric] by auto
    qed
  qed
qed

text \<open>
  C2, as the code has it. The tracker has no test on the duration of a period. An
  iteration of its loop pushes a period exactly when the share balance after the
  interaction is not zero and the interaction is either the last one or followed by an
  interaction in another block; the timestamps play no part in that, and the period
  lasts whatever time lies between its two boundaries. So every emitted period that does
  not belong to the last interaction has two distinct boundary blocks.
\<close>

theorem tracker_has_no_minimum_duration:
  "(initialize w fetched = Inr t \<longrightarrow> q \<in> set (periods t) \<longrightarrow>
      periodeNumber q = length fetched \<or> startBlock q \<noteq> endBlock q) \<and>
   (i < length ints \<longrightarrow> calculatePeriods_body w ints i state = Inr state' \<longrightarrow>
      (if (if type (ints ! i) = deposit then fst state + shares (ints ! i)
           else fst state - shares (ints ! i)) \<noteq> 0 \<and>
          (i + 1 = length ints \<or> blockNumber (ints ! i) \<noteq> blockNumber (ints ! (i + 1)))
       then \<exists>p. periods (snd state') = periods (snd state) @ [p] \<and>
                startTimestamp p = timestamp (ints ! i) \<and>
                durationInSeconds p = endTimestamp p - startTimestamp p
       else periods (snd state') = periods (snd state)))"
proof (intro conjI impI)
  assume "initialize w fetched = Inr t" and "q \<in> set (periods t)"
  then have "tracker_period_ok w (length fetched) q" by (rule initialize_periods_ok)
  then show "periodeNumber q = length fetched \<or> startBlock q \<noteq> endBlock q"
    by (simp add: tracker_period_ok_def)
next
  assume "i < length ints" and "calculatePeriods_body w ints i state = Inr state'"
  then show "if (if type (ints ! i) = deposit then fst state + shares (ints ! i)
           else fst state - shares (ints ! i)) \<noteq> 0 \<and>
          (i + 1 = length ints \<or> blockNumber (ints ! i) \<noteq> blockNumber (ints ! (i + 1)))
       then \<exists>p. periods (snd state') = periods (snd state) @ [p] \<and>
                startTimestamp p = timestamp (ints ! i) \<and>
                durationInSeconds p = endTimestamp p - startTimestamp p
       else periods (snd state') = periods (snd state)"
    by (rule calculatePeriods_body_pushes [rotated])
qed

theorem tracker_has_no_minimum_duration_witness:
  "closing_run = Inr (projr closing_run) \<and>
   periods (projr closing_run) ! 0 \<in> set (periods (projr closing_run)) \<and>
   periodeNumber (periods (projr closing_run) ! 0)
     \<noteq> length [plain 5 50 deposit 100 100, plain 10 100 withdraw 100 100] \<and>
   startBlock (periods (projr closing_run) ! 0) \<noteq> endBlock (periods (projr closing_run) ! 0) \<and>
   (0 :: nat) < length [plain 5 50 deposit 100 100] \<and>
   brief_step = Inr (projr brief_step) \<and>
   (\<exists>p. periods (snd (projr brief_step)) = [p] \<and> startTimestamp p = 50 \<and>
        durationInSeconds p = endTimestamp p - startTimestamp p) \<and>
   map durationInSeconds (periods (snd (projr brief_step))) = [1]"
proof -
  have "\<not> isl closing_run" by code_simp
  then have run: "closing_run = Inr (projr closing_run)" by (rule run_collapse)
  have "0 < length (periods (projr closing_run))" by code_simp
  then have q: "periods (projr closing_run) ! 0 \<in> set (periods (projr closing_run))"
    by (rule nth_mem)
  have n: "periodeNumber (periods (projr closing_run) ! 0)
             \<noteq> length [plain 5 50 deposit 100 100, plain 10 100 withdraw 100 100]"
    by code_simp
  have i: "(0 :: nat) < length [plain 5 50 deposit 100 100]" by simp
  have "\<not> isl brief_step" by code_simp
  then have step: "brief_step = Inr (projr brief_step)" by (rule run_collapse)
  have d: "map durationInSeconds (periods (snd (projr brief_step))) = [1]" by code_simp
  have c: "(if type ([plain 5 50 deposit 100 100] ! 0) = deposit
            then fst (0 :: int, \<lparr>periods = [], rewardsCache = Map.empty,
                                 totalRewardsAccrued = Map.empty\<rparr>)
                 + shares ([plain 5 50 deposit 100 100] ! 0)
            else fst (0 :: int, \<lparr>periods = [], rewardsCache = Map.empty,
                                 totalRewardsAccrued = Map.empty\<rparr>)
                 - shares ([plain 5 50 deposit 100 100] ! 0)) \<noteq> 0 \<and>
           (0 + 1 = length [plain 5 50 deposit 100 100] \<or>
            blockNumber ([plain 5 50 deposit 100 100] ! 0)
              \<noteq> blockNumber ([plain 5 50 deposit 100 100] ! (0 + 1)))"
    by (simp add: plain_def)
  have ts: "timestamp ([plain 5 50 deposit 100 100] ! 0) = 50" by (simp add: plain_def)
  have e: "periods (snd (0 :: int, \<lparr>periods = [], rewardsCache = Map.empty,
                                     totalRewardsAccrued = Map.empty\<rparr>)) @ [p] = [p]" for p
    by simp
  show ?thesis
    using run q n i step d
      tracker_has_no_minimum_duration [where w = flat_world
        and fetched = "[plain 5 50 deposit 100 100, plain 10 100 withdraw 100 100]"
        and t = "projr closing_run"
        and q = "periods (projr closing_run) ! 0"
        and i = 0 and ints = "[plain 5 50 deposit 100 100]"]
      tracker_has_no_minimum_duration [where w = early_world
        and i = 0 and ints = "[plain 5 50 deposit 100 100]"
        and state = "(0, \<lparr>periods = [], rewardsCache = Map.empty,
                           totalRewardsAccrued = Map.empty\<rparr>)"
        and state' = "projr brief_step"]
    unfolding closing_run_def brief_step_def if_P [OF c] ts e
    by blast
qed

text \<open>
  The claim as stated fails: the tracker emits a period of one second, and the
  calculator one of \<open>3500\<close> seconds, which is less than the \<open>3600\<close> seconds of an hour.
\<close>

theorem periods_shorter_than_an_hour:
  "\<not> isl brief_run \<and>
   map durationInSeconds (periods (projr brief_run)) = [1] \<and>
   \<not> isl three_periods_run \<and>
   endTimestamp (periodsOut (projr three_periods_run) ! 0)
     - startTimestamp (periodsOut (projr three_periods_run) ! 0) = 3500"
  by code_simp


section \<open>The percentage of a period\<close>

lemma sdiv_bounds:
  assumes "0 \<le> n" and "0 < (d::int)"
  shows "(n sdiv d) * d \<le> n" and "n < (n sdiv d + 1) * d"
proof -
  have q: "n sdiv d = n div d"
    using assms by (simp add: signed_divide_int_def sgn_if)
  have e: "(n div d) * d + n mod d = n" by simp
  have m: "0 \<le> n mod d" "n mod d < d" using assms by simp_all
  have s: "(n div d + 1) * d = (n div d) * d + d" by (simp add: algebra_simps)
  from e m show "(n sdiv d) * d \<le> n" unfolding q by linarith
  from e m s show "n < (n sdiv d + 1) * d" unfolding q by linarith
qed

text \<open>
  C9, as the code has it. The calculator never divides a \<open>bigint\<close> by zero, and the
  guarded quotient over a zero denominator is \<open>0\<close>. For an emitted period,
  \<open>interestPercent\<close> is \<open>0\<close> when the start value is not positive, and otherwise the
  double \<open>Number(q) / 100\<close> of the integer quotient
  \<open>q = interestAccrued * 10000 / startValue\<close>, which is the largest integer with
  \<open>q * startValue \<le> interestAccrued * 10000\<close>.
\<close>

theorem interestPercent_guarded:
  "calculatePreciseInterestBetweenInteractions latest cache readPrice ints \<noteq> Inl DivisionByZero \<and>
   percentOf n 0 = Inr (Hundredths 0) \<and>
   (calculatePreciseInterestBetweenInteractions latest cache readPrice ints = Inr c \<longrightarrow>
      p \<in> set (periodsOut c) \<longrightarrow>
        interestPercent p =
          Hundredths (if 0 < startValueBigint p
                      then interestAccruedBigint p * 10000 sdiv startValueBigint p
                      else 0) \<and>
        (0 < startValueBigint p \<longrightarrow>
           (interestAccruedBigint p * 10000 sdiv startValueBigint p) * startValueBigint p
             \<le> interestAccruedBigint p * 10000 \<and>
           interestAccruedBigint p * 10000
             < (interestAccruedBigint p * 10000 sdiv startValueBigint p + 1) * startValueBigint p))"
proof (intro conjI impI)
  show "calculatePreciseInterestBetweenInteractions latest cache readPrice ints \<noteq> Inl DivisionByZero"
    using calculator_error by blast
  show "percentOf n 0 = Inr (Hundredths 0)" by (simp add: percentOf_eq)
next
  assume "calculatePreciseInterestBetweenInteractions latest cache readPrice ints = Inr c"
    and "p \<in> set (periodsOut c)"
  then have ok: "emitted_ok p" using calculator_periods_inv by blast
  then have nonneg: "0 \<le> interestAccruedBigint p * 10000" by (simp add: emitted_ok_def)
  from ok have h: "percentOf (interestAccruedBigint p) (startValueBigint p) =
                     Inr (interestPercent p)"
    unfolding emitted_ok_def by blast
  show "interestPercent p =
          Hundredths (if 0 < startValueBigint p
                      then interestAccruedBigint p * 10000 sdiv startValueBigint p
                      else 0)"
    using h unfolding percentOf_eq by (simp only: sum.inject)
  assume pos: "0 < startValueBigint p"
  show "(interestAccruedBigint p * 10000 sdiv startValueBigint p) * startValueBigint p
             \<le> interestAccruedBigint p * 10000"
    using nonneg pos by (rule sdiv_bounds(1))
  show "interestAccruedBigint p * 10000
             < (interestAccruedBigint p * 10000 sdiv startValueBigint p + 1) * startValueBigint p"
    using nonneg pos by (rule sdiv_bounds(2))
qed

theorem interestPercent_guarded_witness:
  "small_gain_run = Inr (projr small_gain_run) \<and>
   periodsOut (projr small_gain_run) ! 0 \<in> set (periodsOut (projr small_gain_run)) \<and>
   0 < startValueBigint (periodsOut (projr small_gain_run) ! 0) \<and>
   small_gain_run \<noteq> Inl DivisionByZero \<and>
   interestPercent (periodsOut (projr small_gain_run) ! 0) =
     Hundredths (if 0 < startValueBigint (periodsOut (projr small_gain_run) ! 0)
                 then interestAccruedBigint (periodsOut (projr small_gain_run) ! 0) * 10000
                      sdiv startValueBigint (periodsOut (projr small_gain_run) ! 0)
                 else 0) \<and>
   interestPercent (periodsOut (projr small_gain_run) ! 0) = Hundredths 3333 \<and>
   (interestAccruedBigint (periodsOut (projr small_gain_run) ! 0) * 10000
      sdiv startValueBigint (periodsOut (projr small_gain_run) ! 0))
     * startValueBigint (periodsOut (projr small_gain_run) ! 0)
     \<le> interestAccruedBigint (periodsOut (projr small_gain_run) ! 0) * 10000"
proof -
  have "\<not> isl small_gain_run" by code_simp
  then have run: "small_gain_run = Inr (projr small_gain_run)" by (rule run_collapse)
  have "0 < length (periodsOut (projr small_gain_run))" by code_simp
  then have p: "periodsOut (projr small_gain_run) ! 0 \<in> set (periodsOut (projr small_gain_run))"
    by (rule nth_mem)
  have sv: "0 < startValueBigint (periodsOut (projr small_gain_run) ! 0)" by code_simp
  have v: "interestPercent (periodsOut (projr small_gain_run) ! 0) = Hundredths 3333"
    by code_simp
  show ?thesis
    using run p sv v
      interestPercent_guarded [where latest = "Some (20, 86400)" and cache = "\<lambda>b. None"
        and readPrice = "\<lambda>b n. Some (15 * 10 ^ 17)"
        and ints = "[priced 5 0 deposit 3 3 (10 ^ 18)]"
        and c = "projr small_gain_run"
        and p = "periodsOut (projr small_gain_run) ! 0"]
    unfolding small_gain_run_def
    by blast
qed

text \<open>
  The claim as stated fails where the cut matters: an interest of \<open>1\<close> on a start value
  of \<open>30000\<close> is reported as \<open>Number(0) / 100\<close>, which is \<open>0\<close>, while
  \<open>1 / 30000 * 100\<close> is not.
\<close>

theorem interestPercent_truncated:
  "\<not> isl tiny_gain_run \<and>
   map startValueBigint (periodsOut (projr tiny_gain_run)) = [30000] \<and>
   map interestAccruedBigint (periodsOut (projr tiny_gain_run)) = [1] \<and>
   map interestPercent (periodsOut (projr tiny_gain_run)) = [Hundredths 0] \<and>
   (of_int (interestAccruedBigint (periodsOut (projr tiny_gain_run) ! 0)) /
    of_int (startValueBigint (periodsOut (projr tiny_gain_run) ! 0)) * 100 :: rat) \<noteq> 0"
  by code_simp


section \<open>Reconciliation\<close>

lemma single_loop:
  "preciseInterest_loop [d] 0 \<lparr>currentShares = 0, runningInterest = 0, enhancedPeriods = []\<rparr> =
   Inr \<lparr>currentShares = (if type d = deposit then shares d else - shares d),
        runningInterest = 0, enhancedPeriods = []\<rparr>"
  by (simp add: preciseInterest_body_def Let_def)

text \<open>
  C3, as the code has it. With one deposit and no withdrawal, \<open>simpleInterest\<close> is
  the value of the deposited shares at the deposit's own price minus the deposited
  assets, clamped at zero: \<open>currentValue\<close> is taken at the price of the last
  interaction, not at the latest block. The period-based figure is the interest of the
  one open period, if it is emitted: the clamped difference of the value at the price
  that the calculator obtains for the latest block and the value at the deposit's
  price. The two are equal only when these amounts happen to be.
\<close>

theorem single_deposit_reconciliation:
  assumes "type d = deposit"
    and "calculatePreciseInterestBetweenInteractions latest cache readPrice [d] = Inr c"
  shows "simpleInterest (reconcileInterestCalculation [d] c) =
           max ((shares d * pricePerShare d) sdiv SCALE - assets d) 0 \<and>
         length (periodsOut c) \<le> 1 \<and>
         calculatedInterest (reconcileInterestCalculation [d] c) =
           sum_list (map interestAccruedBigint (periodsOut c)) \<and>
         calculatedInterest (reconcileInterestCalculation [d] c) =
           (case latest of
              None \<Rightarrow> 0
            | Some (latestNumber, latestTimestamp) \<Rightarrow>
                if periodsOut c = [] then 0
                else max ((shares d *
                           calc_getPricePerShareAtBlock cache readPrice latestNumber 3) sdiv SCALE
                          - (shares d * pricePerShare d) sdiv SCALE) 0)"
proof -
  have simple: "simpleInterest (reconcileInterestCalculation [d] c) =
           max ((shares d * pricePerShare d) sdiv SCALE - assets d) 0"
    using assms(1)
    by (simp add: reconcileInterestCalculation_def calculatePreciseTotalValue_def Let_def max_def)
  have calc: "calculatedInterest (reconcileInterestCalculation [d] c) = totalInterestAccruedBigint c"
    by (simp add: reconcileInterestCalculation_def Let_def)
  have fin: "calculateInterestToLatestBlock latest cache readPrice [d] (shares d) 0
               \<lparr>periodsOut = [], totalInterestAccruedBigint = 0\<rparr> = Inr c"
    using assms(2) unfolding calculatePreciseInterestBetweenInteractions_def single_loop
    using assms(1) by simp
  from calculateInterestToLatestBlock_cases [OF fin] show ?thesis
  proof
    assume "c = \<lparr>periodsOut = [], totalInterestAccruedBigint = 0\<rparr>"
    with simple calc show ?thesis by (simp split: option.splits)
  next
    assume "\<exists>p. periodsOut c = periodsOut \<lparr>periodsOut = [], totalInterestAccruedBigint = 0\<rparr> @ [p] \<and>
       emitted_ok p \<and> cumulativeInterest p = 0 + interestAccruedBigint p \<and>
       totalInterestAccruedBigint c = 0 + interestAccruedBigint p \<and>
       sharesHeldBigint p = shares d \<and> startPrice p = pricePerShare ([d] ! (length [d] - 1)) \<and>
       (\<exists>n t. latest = Some (n, t) \<and> endBlock p = n \<and>
              endPrice p = calc_getPricePerShareAtBlock cache readPrice n 3)"
    then obtain p n t where p: "periodsOut c = [p]" "emitted_ok p"
        "totalInterestAccruedBigint c = interestAccruedBigint p"
        "sharesHeldBigint p = shares d" "startPrice p = pricePerShare d"
        "latest = Some (n, t)"
        "endPrice p = calc_getPricePerShareAtBlock cache readPrice n 3"
      by auto
    from p(2,4,5,7) have "interestAccruedBigint p =
              max ((shares d * calc_getPricePerShareAtBlock cache readPrice n 3) sdiv SCALE
                   - (shares d * pricePerShare d) sdiv SCALE) 0"
      by (simp add: emitted_ok_def)
    with simple calc p show ?thesis by simp
  qed
qed

theorem single_deposit_reconciliation_witness:
  "type (priced 5 0 deposit 1000 1000 (10 ^ 18)) = deposit \<and>
   single_run = Inr (projr single_run) \<and>
   simpleInterest (reconcileInterestCalculation [priced 5 0 deposit 1000 1000 (10 ^ 18)]
                     (projr single_run)) =
     max ((shares (priced 5 0 deposit 1000 1000 (10 ^ 18)) *
           pricePerShare (priced 5 0 deposit 1000 1000 (10 ^ 18))) sdiv SCALE
          - assets (priced 5 0 deposit 1000 1000 (10 ^ 18))) 0 \<and>
   calculatedInterest (reconcileInterestCalculation [priced 5 0 deposit 1000 1000 (10 ^ 18)]
                         (projr single_run)) =
     max ((shares (priced 5 0 deposit 1000 1000 (10 ^ 18)) *
           calc_getPricePerShareAtBlock (\<lambda>b. None) (\<lambda>b n. Some (15 * 10 ^ 17)) 20 3) sdiv SCALE
          - (shares (priced 5 0 deposit 1000 1000 (10 ^ 18)) *
             pricePerShare (priced 5 0 deposit 1000 1000 (10 ^ 18))) sdiv SCALE) 0 \<and>
   calc_getPricePerShareAtBlock (\<lambda>b. None) (\<lambda>b n. Some (15 * 10 ^ 17)) 20 3 = 15 * 10 ^ 17"
proof -
  have ne: "periodsOut (projr single_run) \<noteq> []" by code_simp
  have ty: "type (priced 5 0 deposit 1000 1000 (10 ^ 18)) = deposit"
    by (simp add: priced_def)
  have "\<not> isl single_run" by code_simp
  then have run: "single_run = Inr (projr single_run)" by (rule run_collapse)
  then have run': "calculatePreciseInterestBetweenInteractions (Some (20, 86400)) (\<lambda>b. None)
       (\<lambda>b n. Some (15 * 10 ^ 17)) [priced 5 0 deposit 1000 1000 (10 ^ 18)]
     = Inr (projr single_run)"
    by (simp add: single_run_def)
  have pr: "calc_getPricePerShareAtBlock (\<lambda>b. None) (\<lambda>b n. Some (15 * 10 ^ 17)) 20 3
              = 15 * 10 ^ 17"
    by simp
  show ?thesis
    using ty run ne pr single_deposit_reconciliation [OF ty run']
    by simp
qed

text \<open>
  The claim as stated fails as soon as the price has moved since the deposit: \<open>1000\<close>
  shares bought for \<open>1000\<close> at \<open>1.0\<close> and seen at \<open>1.5\<close> give a period-based
  interest of \<open>500\<close> and a simple interest of \<open>0\<close>.
\<close>

theorem single_deposit_methods_differ:
  "\<not> isl single_run \<and>
   calculatedInterest (reconcileInterestCalculation [priced 5 0 deposit 1000 1000 (10 ^ 18)]
                         (projr single_run)) = 500 \<and>
   simpleInterest (reconcileInterestCalculation [priced 5 0 deposit 1000 1000 (10 ^ 18)]
                     (projr single_run)) = 0 \<and>
   \<not> methodsMatch (reconcileInterestCalculation [priced 5 0 deposit 1000 1000 (10 ^ 18)]
                      (projr single_run))"
  by code_simp


section \<open>Missing samples\<close>

lemma rewards_loop_price_free:
  "rewards_loop (w\<lparr>readPricePerShare := f\<rparr>) s e as acc = rewards_loop w s e as acc"
  by (induction as arbitrary: acc)
     (simp_all add: Let_def split: prod.splits option.splits)

lemma calculateRewardsForPeriod_price_free:
  "calculateRewardsForPeriod (w\<lparr>readPricePerShare := f\<rparr>) s e = calculateRewardsForPeriod w s e"
  by (simp add: calculateRewardsForPeriod_def rewards_loop_price_free Let_def
           cong: option.case_cong)

lemma fetchRewardsForPeriod_price_free:
  "fetchRewardsForPeriod (w\<lparr>readPricePerShare := f\<rparr>) t sb eb = fetchRewardsForPeriod w t sb eb"
  by (simp add: fetchRewardsForPeriod_def getBlockTimestamp_def
                calculateRewardsForPeriod_price_free
           cong: option.case_cong sum.case_cong)

lemma price_with_default:
  "tracker_getPricePerShareAtBlock
     (w\<lparr>readPricePerShare := \<lambda>b. Some (tracker_getPricePerShareAtBlock w b)\<rparr>) b =
   tracker_getPricePerShareAtBlock w b"
  by (simp add: tracker_getPricePerShareAtBlock_def)

lemma calculatePeriods_body_with_default:
  "calculatePeriods_body
     (w\<lparr>readPricePerShare := \<lambda>b. Some (tracker_getPricePerShareAtBlock w b)\<rparr>) ints i state =
   calculatePeriods_body w ints i state"
  unfolding calculatePeriods_body_def price_with_default fetchRewardsForPeriod_price_free
  by (simp cong: option.case_cong sum.case_cong if_cong)

lemma calculatePeriods_loop_with_default:
  "calculatePeriods_loop
     (w\<lparr>readPricePerShare := \<lambda>b. Some (tracker_getPricePerShareAtBlock w b)\<rparr>) ints i state =
   calculatePeriods_loop w ints i state"
proof (induction w ints i state rule: calculatePeriods_loop.induct)
  case (1 w ints i state)
  let ?w = "w\<lparr>readPricePerShare := \<lambda>b. Some (tracker_getPricePerShareAtBlock w b)\<rparr>"
  have L: "calculatePeriods_loop ?w ints i state =
     (if i < length ints
      then (case calculatePeriods_body w ints i state of
              Inl e \<Rightarrow> Inl e
            | Inr state' \<Rightarrow> calculatePeriods_loop ?w ints (i + 1) state')
      else Inr state)"
    by (subst calculatePeriods_loop.simps) (simp only: calculatePeriods_body_with_default)
  have R: "calculatePeriods_loop w ints i state =
     (if i < length ints
      then (case calculatePeriods_body w ints i state of
              Inl e \<Rightarrow> Inl e
            | Inr state' \<Rightarrow> calculatePeriods_loop w ints (i + 1) state')
      else Inr state)"
    by (rule calculatePeriods_loop.simps)
  show ?case
  proof (cases "i < length ints")
    case True
    show ?thesis
    proof (cases "calculatePeriods_body w ints i state")
      case (Inl e)
      show ?thesis unfolding L R Inl by (simp only: sum.case)
    next
      case (Inr st1)
      from "1.IH" [OF True Inr] show ?thesis
        unfolding L R Inr by (simp only: sum.case)
    qed
  next
    case False
    show ?thesis unfolding L R using False by (simp only: if_False)
  qed
qed

lemma calc_price_default:
  assumes "cache b = None" and "\<forall>n\<le>k. readPrice b n = None"
  shows "calc_getPricePerShareAtBlock cache readPrice b k = 10 ^ 18"
  using assms by (induction k) simp_all

lemma set_blockNumbers_foldl:
  "set (foldl (\<lambda>seen b. if b \<in> set seen then seen else seen @ [b]) acc bs) = set acc \<union> set bs"
  by (induction bs arbitrary: acc) auto

lemma set_blockNumbersOf: "set (blockNumbersOf events) = eventBlock ` set events"
  by (simp add: blockNumbersOf_def set_blockNumbers_foldl)

lemma fetchBlockTimestamps_result:
  "fetchBlockTimestamps ch bs bc =
     (if \<forall>b\<in>set bs. blockTimestamp ch b \<noteq> None
      then Inr (\<lambda>b. if b \<in> set bs
                    then Some ((cacheEntry bc b)\<lparr>cachedTimestamp := blockTimestamp ch b\<rparr>)
                    else bc b)
      else Inl ClientError)"
proof (induction bs arbitrary: bc)
  case Nil
  show ?case by simp
next
  case (Cons b bs)
  show ?case
  proof (cases "blockTimestamp ch b")
    case None
    then show ?thesis by auto
  next
    case (Some ts)
    have "(\<lambda>x. if x \<in> set bs
              then Some ((cacheEntry (bc(b \<mapsto> (cacheEntry bc b)\<lparr>cachedTimestamp := Some ts\<rparr>)) x)
                           \<lparr>cachedTimestamp := blockTimestamp ch x\<rparr>)
              else (bc(b \<mapsto> (cacheEntry bc b)\<lparr>cachedTimestamp := Some ts\<rparr>)) x) =
          (\<lambda>x. if x \<in> set (b # bs)
              then Some ((cacheEntry bc x)\<lparr>cachedTimestamp := blockTimestamp ch x\<rparr>)
              else bc x)"
      using Some by (auto simp: fun_eq_iff cacheEntry_def)
    with Some show ?thesis by (simp add: Cons.IH)
  qed
qed

lemma fetchPricePerShare_result:
  "fetchPricePerShare ch bs bc =
     (if \<forall>b\<in>set bs. totalAssets ch b \<noteq> None \<and> totalSupply ch b \<noteq> None
      then Inr (\<lambda>b. if b \<in> set bs \<and> batchPrice ch b \<noteq> None
                    then Some ((cacheEntry bc b)\<lparr>cachedPricePerShare := batchPrice ch b\<rparr>)
                    else bc b)
      else Inl ClientError)"
proof (induction bs arbitrary: bc)
  case Nil
  show ?case by simp
next
  case (Cons b bs)
  show ?case
  proof (cases "totalAssets ch b")
    case None
    then show ?thesis by auto
  next
    case a: (Some a)
    show ?thesis
    proof (cases "totalSupply ch b")
      case None
      with a show ?thesis by auto
    next
      case s: (Some s)
      define bc' where "bc' = (if a \<noteq> 0 \<and> s \<noteq> 0
                 then bc(b \<mapsto> (cacheEntry bc b)
                        \<lparr>cachedPricePerShare :=
                           Some (if 0 < s then quotientScaled ch a s else 10 ^ 18)\<rparr>)
                 else bc)"
      have step: "fetchPricePerShare ch (b # bs) bc = fetchPricePerShare ch bs bc'"
        using a s by (simp add: bc'_def)
      have "(\<lambda>x. if x \<in> set bs \<and> batchPrice ch x \<noteq> None
              then Some ((cacheEntry bc' x)\<lparr>cachedPricePerShare := batchPrice ch x\<rparr>)
              else bc' x) =
          (\<lambda>x. if x \<in> set (b # bs) \<and> batchPrice ch x \<noteq> None
              then Some ((cacheEntry bc x)\<lparr>cachedPricePerShare := batchPrice ch x\<rparr>)
              else bc x)"
        using a s by (auto simp: fun_eq_iff cacheEntry_def bc'_def batchPrice_def)
      with a s show ?thesis unfolding step Cons.IH by simp
    qed
  qed
qed

lemma fetchBlockData_result:
  "fetchBlockData ch ds ws =
     (if \<forall>b\<in>eventBlock ` set (ds @ ws).
           blockTimestamp ch b \<noteq> None \<and> totalAssets ch b \<noteq> None \<and> totalSupply ch b \<noteq> None
      then Inr (\<lambda>b. if b \<in> eventBlock ` set (ds @ ws)
                    then Some \<lparr>cachedTimestamp = blockTimestamp ch b,
                               cachedPricePerShare = batchPrice ch b\<rparr>
                    else None)
      else Inl ClientError)"
  unfolding fetchBlockData_def Let_def fetchBlockTimestamps_result fetchPricePerShare_result
    set_blockNumbersOf
  by (auto simp: fun_eq_iff cacheEntry_def batchPrice_def split: option.splits)

lemma attach_fetched:
  assumes "fetchBlockData ch ds ws = Inr bc" and "e \<in> set (ds @ ws)"
  shows "attach_block_data bc (ty, e) =
           (case batchPrice ch (eventBlock e) of
              None \<Rightarrow> None
            | Some p \<Rightarrow>
               (case blockTimestamp ch (eventBlock e) of
                  None \<Rightarrow> None
                | Some ts \<Rightarrow>
                   Some \<lparr>blockNumber = eventBlock e, timestamp = ts, type = ty,
                         assets = eventAssets e, shares = eventShares e,
                         pricePerShare = p\<rparr>))"
proof -
  have bc: "bc = (\<lambda>b. if b \<in> eventBlock ` set (ds @ ws)
                    then Some \<lparr>cachedTimestamp = blockTimestamp ch b,
                               cachedPricePerShare = batchPrice ch b\<rparr>
                    else None)"
    using assms(1) unfolding fetchBlockData_result by (simp split: if_splits)
  have "eventBlock e \<in> eventBlock ` set (ds @ ws)" using assms(2) by (rule imageI)
  then show ?thesis
    unfolding bc attach_block_data_def by (simp split: option.splits)
qed

lemma ledger_priced:
  assumes "fetchBlockData ch ds ws = Inr bc"
    and "x \<in> set (calc_fetchUserInteractions bc ds ws)"
  shows "batchPrice ch (blockNumber x) = Some (pricePerShare x)"
proof -
  from assms(2) obtain te where te: "te \<in> set (map (Pair deposit) ds @ map (Pair withdraw) ws)"
      and at: "attach_block_data bc te = Some x"
    unfolding calc_fetchUserInteractions_def by (blast dest: in_set_map_filterD)
  obtain ty e where tee: "te = (ty, e)" by (cases te)
  with te have "e \<in> set (ds @ ws)" by auto
  from attach_fetched [OF assms(1) this, of ty] at tee show ?thesis
    by (auto split: option.splits)
qed

lemma batchPrice_SomeD:
  assumes "batchPrice ch b = Some p"
  shows "\<exists>a s. totalAssets ch b = Some a \<and> totalSupply ch b = Some s \<and> a \<noteq> 0 \<and> s \<noteq> 0 \<and>
               p = (if 0 < s then quotientScaled ch a s else 10 ^ 18)"
  using assms by (auto simp: batchPrice_def split: option.splits if_splits)

lemma fetching_rejected:
  assumes "e \<in> set (ds @ ws)"
    and "blockTimestamp ch (eventBlock e) = None \<or> totalAssets ch (eventBlock e) = None \<or>
         totalSupply ch (eventBlock e) = None"
  shows "calculateAverageAPY_fetching ch latest readPrice ds ws = Inl ClientError"
proof -
  have "\<not> (\<forall>b\<in>eventBlock ` set (ds @ ws).
           blockTimestamp ch b \<noteq> None \<and> totalAssets ch b \<noteq> None \<and> totalSupply ch b \<noteq> None)"
    using assms by blast
  then have "fetchBlockData ch ds ws = Inl ClientError"
    unfolding fetchBlockData_result by (rule if_not_P)
  then show ?thesis by (simp add: calculateAverageAPY_fetching_def)
qed

lemma calc_price_with_default:
  "calc_getPricePerShareAtBlock cache (\<lambda>b k. Some (calc_getPricePerShareAtBlock cache readPrice b k)) n k
     = calc_getPricePerShareAtBlock cache readPrice n k"
  by (cases "cache n") simp_all

lemma calculateInterestToLatestBlock_with_default:
  "calculateInterestToLatestBlock latest cache
     (\<lambda>b k. Some (calc_getPricePerShareAtBlock cache readPrice b k)) ints sh cum c =
   calculateInterestToLatestBlock latest cache readPrice ints sh cum c"
  unfolding calculateInterestToLatestBlock_def calc_price_with_default by (rule refl)

lemma calculator_with_default:
  "calculatePreciseInterestBetweenInteractions latest cache
     (\<lambda>b k. Some (calc_getPricePerShareAtBlock cache readPrice b k)) ints =
   calculatePreciseInterestBetweenInteractions latest cache readPrice ints"
  unfolding calculatePreciseInterestBetweenInteractions_def
    calculateInterestToLatestBlock_with_default by (rule refl)

lemma two_days: "(2 < (of_int d / 86400 :: rat)) \<longleftrightarrow> 172800 < d"
proof -
  have "(2 < (of_int d / 86400 :: rat)) \<longleftrightarrow> (of_int 172800 :: rat) < of_int d"
    by (simp add: field_simps)
  also have "\<dots> \<longleftrightarrow> 172800 < d"
    by (simp only: of_int_less_iff)
  finally show ?thesis .
qed

lemma fetchRewardsForPeriod_empty_answer:
  assumes "getBlock w sb = Some s" and "getBlock w eb = Some e"
    and "rewardsCache t (s, e) = None"
    and "timestampToDateString w s = Some fromDate"
    and "timestampToDateString w e = Some toDate"
    and "fetchBalanceTimeseries w fromDate toDate (if 172800 < e - s then day else hour) = None \<or>
         fetchBalanceTimeseries w fromDate toDate (if 172800 < e - s then day else hour) = Some []"
  shows "\<exists>t'. fetchRewardsForPeriod w t sb eb = Inr ([], t') \<and> periods t' = periods t"
proof -
  have "calculateRewardsForPeriod w s e = Inr []"
    using assms(4-6) by (auto simp: calculateRewardsForPeriod_def Let_def two_days)
  with assms(1-3) show ?thesis
    by (simp add: fetchRewardsForPeriod_def getBlockTimestamp_def)
qed

lemma fetched_reads:
  assumes "fetchBlockData ch ds ws = Inr bc" and "e \<in> set (ds @ ws)"
  shows "\<exists>ts a s. blockTimestamp ch (eventBlock e) = Some ts \<and>
           totalAssets ch (eventBlock e) = Some a \<and> totalSupply ch (eventBlock e) = Some s"
proof -
  have all: "\<forall>b\<in>eventBlock ` set (ds @ ws).
           blockTimestamp ch b \<noteq> None \<and> totalAssets ch b \<noteq> None \<and> totalSupply ch b \<noteq> None"
    using assms(1) unfolding fetchBlockData_result by (simp split: if_splits)
  have "eventBlock e \<in> eventBlock ` set (ds @ ws)" using assms(2) by (rule imageI)
  with all show ?thesis by auto
qed

lemma ledger_blocks_aux:
  assumes f: "fetchBlockData ch ds ws = Inr bc"
    and sub: "\<forall>te\<in>set xs. snd te \<in> set (ds @ ws)"
  shows "map blockNumber (List.map_filter (attach_block_data bc) xs) =
         filter (\<lambda>b. totalAssets ch b \<noteq> Some 0 \<and> totalSupply ch b \<noteq> Some 0)
           (map (\<lambda>te. eventBlock (snd te)) xs)"
  using sub
proof (induction xs)
  case Nil
  show ?case by (simp add: map_filter_simps)
next
  case (Cons te xs)
  obtain ty e where te: "te = (ty, e)" by (cases te)
  with Cons.prems have e: "e \<in> set (ds @ ws)" by simp
  from fetched_reads [OF f e] obtain ts a s where r:
      "blockTimestamp ch (eventBlock e) = Some ts"
      "totalAssets ch (eventBlock e) = Some a" "totalSupply ch (eventBlock e) = Some s"
    by blast
  have IH: "map blockNumber (List.map_filter (attach_block_data bc) xs) =
         filter (\<lambda>b. totalAssets ch b \<noteq> Some 0 \<and> totalSupply ch b \<noteq> Some 0)
           (map (\<lambda>te. eventBlock (snd te)) xs)"
    using Cons by simp
  show ?case
    using IH r attach_fetched [OF f e, of ty]
    by (simp add: map_filter_simps te batchPrice_def)
qed

lemma ledger_blocks:
  assumes "fetchBlockData ch ds ws = Inr bc"
  shows "map blockNumber (calc_fetchUserInteractions bc ds ws) =
         filter (\<lambda>b. totalAssets ch b \<noteq> Some 0 \<and> totalSupply ch b \<noteq> Some 0)
           (map eventBlock (ds @ ws))"
proof -
  have "\<forall>te\<in>set (map (Pair deposit) ds @ map (Pair withdraw) ws). snd te \<in> set (ds @ ws)"
    by auto
  from ledger_blocks_aux [OF assms this] show ?thesis
    by (simp add: calc_fetchUserInteractions_def comp_def)
qed

text \<open>
  C8, as the code has it.

  The tracker replaces a price sample that cannot be read by the price \<open>1.0\<close> and goes
  on exactly as if the chain had answered \<open>1.0\<close>, so the period is computed and emitted,
  not left out.

  The calculator does the same for the latest block, the end of the open period: its
  fallback gives \<open>1.0\<close> once the read and its three retries have failed, and the
  periods are those of a chain that answered \<open>1.0\<close>. For the block of an interaction it
  substitutes nothing: when a read of the batched fetch fails the whole calculation is
  rejected, and when the vault reports zero assets or zero supply at that block the
  block gets no price and its interactions are left out of the ledger, so every
  interaction of the ledger carries a price that was read.

  When the rewards API answers the query of a period with nothing or with an empty list,
  the period gets an empty reward list and no error.
\<close>

theorem missing_samples:
  "(readPricePerShare w b = None \<longrightarrow> tracker_getPricePerShareAtBlock w b = 10 ^ 18) \<and>
   initialize (w\<lparr>readPricePerShare := \<lambda>b. Some (tracker_getPricePerShareAtBlock w b)\<rparr>) fetched
     = initialize w fetched \<and>
   (cache b = None \<longrightarrow> (\<forall>n\<le>3. readPrice b n = None) \<longrightarrow>
      calc_getPricePerShareAtBlock cache readPrice b 3 = 10 ^ 18) \<and>
   calculatePreciseInterestBetweenInteractions latest cache
       (\<lambda>b k. Some (calc_getPricePerShareAtBlock cache readPrice b k)) ints
     = calculatePreciseInterestBetweenInteractions latest cache readPrice ints \<and>
   (ev \<in> set (ds @ ws) \<longrightarrow>
      blockTimestamp ch (eventBlock ev) = None \<or> totalAssets ch (eventBlock ev) = None \<or>
      totalSupply ch (eventBlock ev) = None \<longrightarrow>
      calculateAverageAPY_fetching ch latest readPrice ds ws = Inl ClientError) \<and>
   (fetchBlockData ch ds ws = Inr bc \<longrightarrow>
      map blockNumber (calc_fetchUserInteractions bc ds ws) =
        filter (\<lambda>b. totalAssets ch b \<noteq> Some 0 \<and> totalSupply ch b \<noteq> Some 0)
          (map eventBlock (ds @ ws)) \<and>
      (x \<in> set (calc_fetchUserInteractions bc ds ws) \<longrightarrow>
         (\<exists>a s. totalAssets ch (blockNumber x) = Some a \<and>
                 totalSupply ch (blockNumber x) = Some s \<and> a \<noteq> 0 \<and> s \<noteq> 0 \<and>
                 pricePerShare x = (if 0 < s then quotientScaled ch a s else 10 ^ 18)))) \<and>
   (getBlock w sb = Some s \<longrightarrow> getBlock w eb = Some e \<longrightarrow> rewardsCache t (s, e) = None \<longrightarrow>
    timestampToDateString w s = Some fromDate \<longrightarrow> timestampToDateString w e = Some toDate \<longrightarrow>
      fetchBalanceTimeseries w fromDate toDate (if 172800 < e - s then day else hour) = None \<or>
      fetchBalanceTimeseries w fromDate toDate (if 172800 < e - s then day else hour) = Some [] \<longrightarrow>
      (\<exists>t'. fetchRewardsForPeriod w t sb eb = Inr ([], t') \<and> periods t' = periods t))"
proof (intro conjI impI)
  assume "readPricePerShare w b = None"
  then show "tracker_getPricePerShareAtBlock w b = 10 ^ 18"
    by (simp add: tracker_getPricePerShareAtBlock_def)
next
  show "initialize (w\<lparr>readPricePerShare := \<lambda>b. Some (tracker_getPricePerShareAtBlock w b)\<rparr>) fetched
     = initialize w fetched"
    unfolding initialize_def calculatePeriods_def calculatePeriods_loop_with_default
    by (rule refl)
next
  assume "cache b = None" and "\<forall>n\<le>3. readPrice b n = None"
  then show "calc_getPricePerShareAtBlock cache readPrice b 3 = 10 ^ 18"
    by (rule calc_price_default)
next
  show "calculatePreciseInterestBetweenInteractions latest cache
       (\<lambda>b k. Some (calc_getPricePerShareAtBlock cache readPrice b k)) ints
     = calculatePreciseInterestBetweenInteractions latest cache readPrice ints"
    by (rule calculator_with_default)
next
  assume "ev \<in> set (ds @ ws)"
    and "blockTimestamp ch (eventBlock ev) = None \<or> totalAssets ch (eventBlock ev) = None \<or>
         totalSupply ch (eventBlock ev) = None"
  then show "calculateAverageAPY_fetching ch latest readPrice ds ws = Inl ClientError"
    by (rule fetching_rejected)
next
  assume f: "fetchBlockData ch ds ws = Inr bc"
  then show "map blockNumber (calc_fetchUserInteractions bc ds ws) =
        filter (\<lambda>b. totalAssets ch b \<noteq> Some 0 \<and> totalSupply ch b \<noteq> Some 0)
          (map eventBlock (ds @ ws))"
    by (rule ledger_blocks)
  assume "x \<in> set (calc_fetchUserInteractions bc ds ws)"
  with f have "batchPrice ch (blockNumber x) = Some (pricePerShare x)" by (rule ledger_priced)
  then show "\<exists>a s. totalAssets ch (blockNumber x) = Some a \<and>
                 totalSupply ch (blockNumber x) = Some s \<and> a \<noteq> 0 \<and> s \<noteq> 0 \<and>
                 pricePerShare x = (if 0 < s then quotientScaled ch a s else 10 ^ 18)"
    by (rule batchPrice_SomeD)
next
  assume "getBlock w sb = Some s" and "getBlock w eb = Some e"
    and "rewardsCache t (s, e) = None"
    and "timestampToDateString w s = Some fromDate"
    and "timestampToDateString w e = Some toDate"
    and "fetchBalanceTimeseries w fromDate toDate (if 172800 < e - s then day else hour) = None \<or>
         fetchBalanceTimeseries w fromDate toDate (if 172800 < e - s then day else hour) = Some []"
  then show "\<exists>t'. fetchRewardsForPeriod w t sb eb = Inr ([], t') \<and> periods t' = periods t"
    by (rule fetchRewardsForPeriod_empty_answer)
qed

theorem missing_samples_witness:
  "readPricePerShare quiet_world 5 = None \<and>
   tracker_getPricePerShareAtBlock quiet_world 5 = 10 ^ 18 \<and>
   calc_getPricePerShareAtBlock (\<lambda>b. None) (\<lambda>b n. None) 20 3 = 10 ^ 18 \<and>
   event 6 1000 1000 \<in> set ([event 5 1000 1000, event 6 1000 1000] @ []) \<and>
   totalAssets failing_chain (eventBlock (event 6 1000 1000)) = None \<and>
   calculateAverageAPY_fetching failing_chain (Some (20, 86400)) (\<lambda>b n. None)
     [event 5 1000 1000, event 6 1000 1000] [] = Inl ClientError \<and>
   demo_block_data = Inr (projr demo_block_data) \<and>
   totalAssets demo_chain 6 = Some 0 \<and>
   map blockNumber (calc_fetchUserInteractions (projr demo_block_data)
                      [event 5 1000 1000, event 6 1000 1000] []) = [5] \<and>
   calc_fetchUserInteractions (projr demo_block_data) [event 5 1000 1000, event 6 1000 1000] [] ! 0
     \<in> set (calc_fetchUserInteractions (projr demo_block_data)
              [event 5 1000 1000, event 6 1000 1000] []) \<and>
   (\<exists>a s. totalAssets demo_chain 5 = Some a \<and> totalSupply demo_chain 5 = Some s \<and>
          a \<noteq> 0 \<and> s \<noteq> 0 \<and>
          pricePerShare (calc_fetchUserInteractions (projr demo_block_data)
                           [event 5 1000 1000, event 6 1000 1000] [] ! 0) =
            (if 0 < s then quotientScaled demo_chain a s else 10 ^ 18)) \<and>
   getBlock quiet_world 5 = Some 50 \<and>
   getBlock quiet_world 20 = Some 200 \<and>
   timestampToDateString quiet_world 50 = Some ''2025-02-23'' \<and>
   timestampToDateString quiet_world 200 = Some ''2025-02-23'' \<and>
   fetchBalanceTimeseries quiet_world ''2025-02-23'' ''2025-02-23''
     (if 172800 < (200 :: int) - 50 then day else hour) = None \<and>
   (\<exists>t'. fetchRewardsForPeriod quiet_world
            \<lparr>periods = [], rewardsCache = Map.empty, totalRewardsAccrued = Map.empty\<rparr> 5 20
          = Inr ([], t') \<and> periods t' = [])"
proof -
  have a: "readPricePerShare quiet_world 5 = None"
    by (simp add: quiet_world_def silent_world_def demo_world_def)
  have b: "(\<lambda>b. None :: int option) (20 :: int) = None"
    and c: "\<forall>n\<le>3. (\<lambda>b n. None :: int option) (20 :: int) (n :: nat) = None"
    by simp_all
  have d: "getBlock quiet_world 5 = Some 50" and e: "getBlock quiet_world 20 = Some 200"
    and d': "timestampToDateString quiet_world 50 = Some ''2025-02-23''"
    and e': "timestampToDateString quiet_world 200 = Some ''2025-02-23''"
    and g: "fetchBalanceTimeseries quiet_world ''2025-02-23'' ''2025-02-23''
              (if 172800 < (200 :: int) - 50 then day else hour) = None"
    by (simp_all add: quiet_world_def silent_world_def demo_world_def)
  have f: "rewardsCache \<lparr>periods = [], rewardsCache = Map.empty,
                          totalRewardsAccrued = Map.empty\<rparr> (50, 200) = None"
    by simp
  have p: "periods \<lparr>periods = [], rewardsCache = Map.empty,
                     totalRewardsAccrued = Map.empty\<rparr> = []"
    by simp
  have h: "event 6 1000 1000 \<in> set ([event 5 1000 1000, event 6 1000 1000] @ [])"
    by simp
  have i: "totalAssets failing_chain (eventBlock (event 6 1000 1000)) = None"
    by (simp add: failing_chain_def demo_chain_def event_def)
  have "\<not> isl demo_block_data" by code_simp
  then have j: "demo_block_data = Inr (projr demo_block_data)" by (rule run_collapse)
  then have j': "fetchBlockData demo_chain [event 5 1000 1000, event 6 1000 1000] []
                  = Inr (projr demo_block_data)"
    by (simp add: demo_block_data_def)
  have k: "totalAssets demo_chain 6 = Some 0" by (simp add: demo_chain_def)
  have l: "map blockNumber (calc_fetchUserInteractions (projr demo_block_data)
                      [event 5 1000 1000, event 6 1000 1000] []) = [5]"
    by code_simp
  have "0 < length (calc_fetchUserInteractions (projr demo_block_data)
                      [event 5 1000 1000, event 6 1000 1000] [])"
    by code_simp
  then have m: "calc_fetchUserInteractions (projr demo_block_data)
                  [event 5 1000 1000, event 6 1000 1000] [] ! 0
     \<in> set (calc_fetchUserInteractions (projr demo_block_data)
              [event 5 1000 1000, event 6 1000 1000] [])"
    by (rule nth_mem)
  have n: "blockNumber (calc_fetchUserInteractions (projr demo_block_data)
                  [event 5 1000 1000, event 6 1000 1000] [] ! 0) = 5"
    by code_simp
  note T1 = missing_samples [where w = quiet_world and b = 5 and sb = 5 and eb = 20
        and s = 50 and e = 200 and fromDate = "''2025-02-23''" and toDate = "''2025-02-23''"
        and t = "\<lparr>periods = [], rewardsCache = Map.empty, totalRewardsAccrued = Map.empty\<rparr>"
        and ch = failing_chain and ev = "event 6 1000 1000"
        and ds = "[event 5 1000 1000, event 6 1000 1000]" and ws = "[]"
        and latest = "Some (20, 86400)" and readPrice = "\<lambda>b n. None"]
  note T2 = missing_samples [where w = quiet_world and cache = "\<lambda>b. None" and readPrice = "\<lambda>b n. None"
        and b = 20 and ch = demo_chain
        and ds = "[event 5 1000 1000, event 6 1000 1000]" and ws = "[]"
        and bc = "projr demo_block_data"
        and x = "calc_fetchUserInteractions (projr demo_block_data)
                  [event 5 1000 1000, event 6 1000 1000] [] ! 0"]
  have r1: "tracker_getPricePerShareAtBlock quiet_world 5 = 10 ^ 18"
    using T1 [THEN conjunct1] a by (rule mp)
  have r3: "calc_getPricePerShareAtBlock (\<lambda>b. None) (\<lambda>b n. None) 20 3 = 10 ^ 18"
    using T2 [THEN conjunct2, THEN conjunct2, THEN conjunct1] b c by blast
  have r5: "calculateAverageAPY_fetching failing_chain (Some (20, 86400)) (\<lambda>b n. None)
     [event 5 1000 1000, event 6 1000 1000] [] = Inl ClientError"
    using T1 [THEN conjunct2, THEN conjunct2, THEN conjunct2, THEN conjunct2, THEN conjunct1]
      h i by blast
  have r6: "\<exists>a s. totalAssets demo_chain 5 = Some a \<and> totalSupply demo_chain 5 = Some s \<and>
          a \<noteq> 0 \<and> s \<noteq> 0 \<and>
          pricePerShare (calc_fetchUserInteractions (projr demo_block_data)
                           [event 5 1000 1000, event 6 1000 1000] [] ! 0) =
            (if 0 < s then quotientScaled demo_chain a s else 10 ^ 18)"
    using T2 [THEN conjunct2, THEN conjunct2, THEN conjunct2, THEN conjunct2, THEN conjunct2,
              THEN conjunct1, rule_format, OF j', THEN conjunct2, rule_format, OF m]
    unfolding n .
  have r7: "\<exists>t'. fetchRewardsForPeriod quiet_world
            \<lparr>periods = [], rewardsCache = Map.empty, totalRewardsAccrued = Map.empty\<rparr> 5 20
          = Inr ([], t') \<and> periods t' = []"
    using T1 [THEN conjunct2, THEN conjunct2, THEN conjunct2, THEN conjunct2, THEN conjunct2,
              THEN conjunct2, rule_format, OF d e f d' e' disjI1, OF g]
    unfolding p .
  show ?thesis
    using a r1 r3 h i r5 j k l m r6 d e d' e' g r7
    by (intro conjI)
qed

text \<open>
  The claim as stated fails: with every price read failing, the tracker still emits the
  period from block \<open>5\<close> to block \<open>20\<close>, valued at the substituted price \<open>1.0\<close>.
\<close>

theorem missing_price_period_is_emitted:
  "\<not> isl unpriced_run \<and>
   readPricePerShare silent_world 5 = None \<and>
   readPricePerShare silent_world 20 = None \<and>
   map startBlock (periods (projr unpriced_run)) = [5] \<and>
   map endBlock (periods (projr unpriced_run)) = [20] \<and>
   map positionAmountUnderlyingUnits (periods (projr unpriced_run)) = [100] \<and>
   map positionAccruedInterestUnderlyingUnits (periods (projr unpriced_run)) = [0]"
  by code_simp


section \<open>The native APY\<close>

lemma yield_fields:
  "startTimestamp (calculatePeriodYieldMetrics M (period_literal M a p)) = startTimestamp p"
  "endTimestamp (calculatePeriodYieldMetrics M (period_literal M a p)) = endTimestamp p"
  "positionAmountUnderlyingUnits (calculatePeriodYieldMetrics M (period_literal M a p)) =
     positionAmountUnderlyingUnits p"
  "positionAccruedInterestUnderlyingUnits (calculatePeriodYieldMetrics M (period_literal M a p)) =
     positionAccruedInterestUnderlyingUnits p"
  "positionAmountUSD (calculatePeriodYieldMetrics M (period_literal M a p)) =
     positionAmountUSD (period_literal M a p)"
  "positionAccruedInterestUSD (calculatePeriodYieldMetrics M (period_literal M a p)) =
     positionAccruedInterestUSD (period_literal M a p)"
  by (simp_all add: calculatePeriodYieldMetrics_def period_literal_def Let_def
               split: prod.splits)

lemma usd_unpriced:
  assumes "\<not> hasUsdPrice a"
  shows "positionAmountUSD (period_literal M a p) = fromInt M 0"
    and "positionAccruedInterestUSD (period_literal M a p) = fromInt M 0"
  using assms
  by (auto simp: period_literal_def hasUsdPrice_def Let_def split: option.splits)

lemma usd_priced:
  assumes "a = Some td" and "priceUsd td = Some str" and "str \<noteq> []"
  shows "positionAmountUSD (period_literal M a p) =
           fmul M (Number_formatUnits M (positionAmountUnderlyingUnits p) (decimals td))
             (parseFloat M str)"
    and "positionAccruedInterestUSD (period_literal M a p) =
           fmul M (Number_formatUnits M (positionAccruedInterestUnderlyingUnits p) (decimals td))
             (parseFloat M str)"
  using assms by (simp_all add: period_literal_def Let_def)

lemma nativeAPY_eq:
  "nativeAPY (calculatePeriodYieldMetrics M y) =
     (if fgt M (positionAmountUSD y) (fromInt M 0)
      then compounded M (fdiv M (positionAccruedInterestUSD y) (positionAmountUSD y))
             (fdiv M (fmul M (fromInt M 365) (fromInt M 86400))
                (fromInt M (endTimestamp y - startTimestamp y)))
      else fromInt M 0)"
  by (simp add: calculatePeriodYieldMetrics_def Let_def compounded_def)

lemma yield_period_cases:
  assumes "y \<in> set (yieldPeriods M a t)"
  obtains p where "p \<in> set (periods t)"
    and "y = calculatePeriodYieldMetrics M (period_literal M a p)"
  using assms by (auto simp: yieldPeriods_def)

lemma yield_kept:
  "positionAmountUSD (calculatePeriodYieldMetrics M y) = positionAmountUSD y"
  "positionAccruedInterestUSD (calculatePeriodYieldMetrics M y) = positionAccruedInterestUSD y"
  "startTimestamp (calculatePeriodYieldMetrics M y) = startTimestamp y"
  "endTimestamp (calculatePeriodYieldMetrics M y) = endTimestamp y"
  by (simp_all add: calculatePeriodYieldMetrics_def Let_def)

lemma year_period:
  "\<not> isl year_run"
  "length (periods (projr year_run)) = 1"
  "positionAmountUnderlyingUnits (periods (projr year_run) ! 0) = 100"
  "positionAccruedInterestUnderlyingUnits (periods (projr year_run) ! 0) = 50"
  "startTimestamp (periods (projr year_run) ! 0) = 50"
  "endTimestamp (periods (projr year_run) ! 0) = 31536050"
  by code_simp+

lemma yieldPeriods_single:
  assumes "length (periods t) = 1"
  shows "yieldPeriods M a t = [calculatePeriodYieldMetrics M (period_literal M a (periods t ! 0))]"
proof -
  from assms obtain p where "periods t = [p]"
    by (cases "periods t") simp_all
  then show ?thesis by (simp add: yieldPeriods_def)
qed

lemma whole_number_2: "whole_number ''2'' = 2"
  by (simp add: whole_number_def)

text \<open>
  C4, as the code has it. For a period of the tracker, \<open>nativeAPY\<close> is the compounding
  formula \<open>((1 + r)^AF - 1) * 100\<close> in double arithmetic only when
  \<open>positionAmountUSD > 0\<close>, with \<open>r = positionAccruedInterestUSD / positionAmountUSD\<close>
  and \<open>AF = (365 * 86400) / Number(endTimestamp - startTimestamp)\<close>; otherwise it is
  \<open>0\<close>. The two USD values are the start value and the signed interest of the
  period, each converted with the asset's decimals and multiplied by its USD price. When
  the underlying asset has no USD price they are \<open>0\<close>, and so is \<open>nativeAPY\<close>.
\<close>

theorem nativeAPY_guarded_compounding:
  "initialize w fetched = Inr t \<longrightarrow> y \<in> set (yieldPeriods M assetData t) \<longrightarrow>
     nativeAPY y =
       (if fgt M (positionAmountUSD y) (fromInt M 0)
        then compounded M (fdiv M (positionAccruedInterestUSD y) (positionAmountUSD y))
               (fdiv M (fmul M (fromInt M 365) (fromInt M 86400))
                  (fromInt M (endTimestamp y - startTimestamp y)))
        else fromInt M 0) \<and>
     (assetData = Some td \<longrightarrow> priceUsd td = Some str \<longrightarrow> str \<noteq> [] \<longrightarrow>
        positionAmountUSD y =
          fmul M (Number_formatUnits M (positionAmountUnderlyingUnits y) (decimals td))
            (parseFloat M str) \<and>
        positionAccruedInterestUSD y =
          fmul M (Number_formatUnits M (positionAccruedInterestUnderlyingUnits y) (decimals td))
            (parseFloat M str)) \<and>
     (\<not> hasUsdPrice assetData \<longrightarrow>
        positionAmountUSD y = fromInt M 0 \<and>
        (\<not> fgt M (fromInt M 0) (fromInt M 0) \<longrightarrow> nativeAPY y = fromInt M 0))"
proof (intro impI)
  assume "initialize w fetched = Inr t" and "y \<in> set (yieldPeriods M assetData t)"
  then obtain p where y: "y = calculatePeriodYieldMetrics M (period_literal M assetData p)"
    by (auto elim: yield_period_cases)
  have n: "nativeAPY y =
       (if fgt M (positionAmountUSD y) (fromInt M 0)
        then compounded M (fdiv M (positionAccruedInterestUSD y) (positionAmountUSD y))
               (fdiv M (fmul M (fromInt M 365) (fromInt M 86400))
                  (fromInt M (endTimestamp y - startTimestamp y)))
        else fromInt M 0)"
    unfolding y nativeAPY_eq yield_kept by (rule refl)
  have priced: "positionAmountUSD y =
          fmul M (Number_formatUnits M (positionAmountUnderlyingUnits y) (decimals td))
            (parseFloat M str) \<and>
        positionAccruedInterestUSD y =
          fmul M (Number_formatUnits M (positionAccruedInterestUnderlyingUnits y) (decimals td))
            (parseFloat M str)"
    if "assetData = Some td" "priceUsd td = Some str" "str \<noteq> []"
    unfolding y yield_fields using usd_priced [OF that] by blast
  have unpriced: "positionAmountUSD y = fromInt M 0" if "\<not> hasUsdPrice assetData"
    unfolding y yield_fields using that by (rule usd_unpriced)
  have zero: "nativeAPY y = fromInt M 0"
    if "\<not> hasUsdPrice assetData" "\<not> fgt M (fromInt M 0) (fromInt M 0)"
    using n unpriced [OF that(1)] that(2) by simp
  from n priced unpriced zero
  show "nativeAPY y =
       (if fgt M (positionAmountUSD y) (fromInt M 0)
        then compounded M (fdiv M (positionAccruedInterestUSD y) (positionAmountUSD y))
               (fdiv M (fmul M (fromInt M 365) (fromInt M 86400))
                  (fromInt M (endTimestamp y - startTimestamp y)))
        else fromInt M 0) \<and>
     (assetData = Some td \<longrightarrow> priceUsd td = Some str \<longrightarrow> str \<noteq> [] \<longrightarrow>
        positionAmountUSD y =
          fmul M (Number_formatUnits M (positionAmountUnderlyingUnits y) (decimals td))
            (parseFloat M str) \<and>
        positionAccruedInterestUSD y =
          fmul M (Number_formatUnits M (positionAccruedInterestUnderlyingUnits y) (decimals td))
            (parseFloat M str)) \<and>
     (\<not> hasUsdPrice assetData \<longrightarrow>
        positionAmountUSD y = fromInt M 0 \<and>
        (\<not> fgt M (fromInt M 0) (fromInt M 0) \<longrightarrow> nativeAPY y = fromInt M 0))"
    by blast
qed

theorem nativeAPY_guarded_compounding_witness:
  "initialize year_world [plain 5 50 deposit 100 100] = Inr (projr year_run) \<and>
   yieldPeriods exact_ops (Some unpriced_asset) (projr year_run) ! 0
     \<in> set (yieldPeriods exact_ops (Some unpriced_asset) (projr year_run)) \<and>
   \<not> hasUsdPrice (Some unpriced_asset) \<and>
   \<not> fgt exact_ops (fromInt exact_ops 0) (fromInt exact_ops 0) \<and>
   positionAmountUSD (yieldPeriods exact_ops (Some unpriced_asset) (projr year_run) ! 0) = 0 \<and>
   nativeAPY (yieldPeriods exact_ops (Some unpriced_asset) (projr year_run) ! 0) = 0 \<and>
   yieldPeriods exact_ops (Some priced_asset) (projr year_run) ! 0
     \<in> set (yieldPeriods exact_ops (Some priced_asset) (projr year_run)) \<and>
   priceUsd priced_asset = Some ''2'' \<and>
   positionAmountUSD (yieldPeriods exact_ops (Some priced_asset) (projr year_run) ! 0) = 200 \<and>
   positionAccruedInterestUSD (yieldPeriods exact_ops (Some priced_asset) (projr year_run) ! 0)
     = 100 \<and>
   nativeAPY (yieldPeriods exact_ops (Some priced_asset) (projr year_run) ! 0) = 50"
proof -
  have run: "initialize year_world [plain 5 50 deposit 100 100] = Inr (projr year_run)"
    using run_collapse [OF year_period(1)] by (simp add: year_run_def)
  have len: "0 < length (yieldPeriods exact_ops a (projr year_run))" for a
    by (simp add: yieldPeriods_def year_period(2))
  have m0: "yieldPeriods exact_ops (Some unpriced_asset) (projr year_run) ! 0
     \<in> set (yieldPeriods exact_ops (Some unpriced_asset) (projr year_run))"
    using len by (rule nth_mem)
  have m1: "yieldPeriods exact_ops (Some priced_asset) (projr year_run) ! 0
     \<in> set (yieldPeriods exact_ops (Some priced_asset) (projr year_run))"
    using len by (rule nth_mem)
  have u: "\<not> hasUsdPrice (Some unpriced_asset)"
    by (simp add: hasUsdPrice_def unpriced_asset_def)
  have z: "\<not> fgt exact_ops (fromInt exact_ops 0) (fromInt exact_ops 0)"
    by (simp add: exact_ops_def)
  have pr: "priceUsd priced_asset = Some ''2''" and ne: "''2'' \<noteq> []"
    by (simp_all add: priced_asset_def)
  have f: "positionAmountUnderlyingUnits
             (yieldPeriods exact_ops a (projr year_run) ! 0) = 100"
    "positionAccruedInterestUnderlyingUnits
             (yieldPeriods exact_ops a (projr year_run) ! 0) = 50"
    "startTimestamp (yieldPeriods exact_ops a (projr year_run) ! 0) = 50"
    "endTimestamp (yieldPeriods exact_ops a (projr year_run) ! 0) = 31536050" for a
    by (simp_all add: yieldPeriods_single [OF year_period(2)] yield_fields year_period)
  note T0 = nativeAPY_guarded_compounding [where w = year_world
      and fetched = "[plain 5 50 deposit 100 100]" and t = "projr year_run"
      and M = exact_ops and assetData = "Some unpriced_asset"
      and y = "yieldPeriods exact_ops (Some unpriced_asset) (projr year_run) ! 0",
      rule_format, OF run m0]
  note T1 = nativeAPY_guarded_compounding [where w = year_world
      and fetched = "[plain 5 50 deposit 100 100]" and t = "projr year_run"
      and M = exact_ops and assetData = "Some priced_asset"
      and y = "yieldPeriods exact_ops (Some priced_asset) (projr year_run) ! 0"
      and td = priced_asset and str = "''2''",
      rule_format, OF run m1]
  have a0: "positionAmountUSD (yieldPeriods exact_ops (Some unpriced_asset) (projr year_run) ! 0)
              = 0"
    using T0 [THEN conjunct2, THEN conjunct2, rule_format, OF u, THEN conjunct1]
    by (simp add: exact_ops_def)
  have n0: "nativeAPY (yieldPeriods exact_ops (Some unpriced_asset) (projr year_run) ! 0) = 0"
    using T0 [THEN conjunct2, THEN conjunct2, rule_format, OF u, THEN conjunct2, rule_format, OF z]
    by (simp add: exact_ops_def)
  have usd: "positionAmountUSD (yieldPeriods exact_ops (Some priced_asset) (projr year_run) ! 0)
              = 200"
    "positionAccruedInterestUSD (yieldPeriods exact_ops (Some priced_asset) (projr year_run) ! 0)
              = 100"
    using T1 [THEN conjunct2, THEN conjunct1, rule_format, OF refl pr ne]
    unfolding f by (simp_all add: exact_ops_def priced_asset_def whole_number_2)
  have n1: "nativeAPY (yieldPeriods exact_ops (Some priced_asset) (projr year_run) ! 0) = 50"
    using T1 [THEN conjunct1] unfolding usd f
    by (simp add: exact_ops_def compounded_def)
  show ?thesis
    using run m0 u z a0 n0 m1 pr usd n1 by (intro conjI)
qed

text \<open>
  The claim as stated fails when the asset has no USD price: \<open>100\<close> shares held for
  \<open>365\<close> days while the price goes from \<open>1.0\<close> to \<open>1.5\<close> have a start value of
  \<open>100\<close> and an interest of \<open>50\<close>, so the formula gives \<open>50\<close>, and the tracker
  reports a \<open>nativeAPY\<close> of \<open>0\<close>.
\<close>

theorem nativeAPY_zero_without_usd_price:
  "\<not> isl year_run \<and>
   map positionAmountUnderlyingUnits (periods (projr year_run)) = [100] \<and>
   map positionAccruedInterestUnderlyingUnits (periods (projr year_run)) = [50] \<and>
   map (\<lambda>p. endTimestamp p - startTimestamp p) (periods (projr year_run)) = [31536000] \<and>
   map nativeAPY (yieldPeriods exact_ops (Some unpriced_asset) (projr year_run)) = [0] \<and>
   compounded exact_ops (50 / 100) (31536000 / 31536000) = 50"
proof -
  have a: "map positionAmountUnderlyingUnits (periods (projr year_run)) = [100]"
    and b: "map positionAccruedInterestUnderlyingUnits (periods (projr year_run)) = [50]"
    and c: "map (\<lambda>p. endTimestamp p - startTimestamp p) (periods (projr year_run)) = [31536000]"
    by code_simp+
  have u: "\<not> hasUsdPrice (Some unpriced_asset)"
    by (simp add: hasUsdPrice_def unpriced_asset_def)
  have d: "map nativeAPY (yieldPeriods exact_ops (Some unpriced_asset) (projr year_run)) = [0]"
    unfolding yieldPeriods_single [OF year_period(2)] list.map nativeAPY_eq usd_unpriced [OF u]
    by (simp add: exact_ops_def)
  have e: "compounded exact_ops (50 / 100) (31536000 / 31536000) = 50"
    by (simp add: compounded_def exact_ops_def)
  show ?thesis using year_period(1) a b c d e by (intro conjI)
qed

end
